theory Spec2Isabelle
  imports Complex_Main "HOL-Library.AList" "HOL-Library.Multiset"
begin

section \<open>Python values, errors and effects\<close>

text \<open>
  The values that \<^verbatim>\<open>json.loads\<close> returns and that the metadata dictionary holds.
  A Python float is modelled by the rational it denotes (infinities and NaN have no
  counterpart, and float rounding is not modelled); a dictionary is an association list
  in insertion order.
\<close>

datatype pyval =
    PNone
  | PBool bool
  | PInt int
  | PFloat rat
  | PStr string
  | PList "pyval list"
  | PDict "(string \<times> pyval) list"

text \<open>The exceptions that the modelled code can raise.\<close>

datatype error =
    FileNotFoundError
  | JSONDecodeError
  | KeyError
  | TypeError
  | ValueError
  | AttributeError
  | ZeroDivisionError
  | OtherError string

datatype level = INFO | WARNING | ERROR

text \<open>
  What a call leaves behind besides its result: a record written by \<^verbatim>\<open>logger\<close>, a
  process started by \<^verbatim>\<open>subprocess.run\<close> (its argument vector), a file written with
  \<^verbatim>\<open>open(..., 'w')\<close>. The text of an exception interpolated into a log record
  (\<^verbatim>\<open>{e}\<close>) is left out of the message.
\<close>

datatype event =
    Log level string
  | Exec "string list"
  | WriteFile string string

text \<open>Outcome of \<^verbatim>\<open>subprocess.run(cmd, check=True, ...)\<close>: the captured standard
  output on exit status 0, \<^verbatim>\<open>CalledProcessError\<close> otherwise.\<close>

datatype proc = ZeroExit string | CalledProcessError

text \<open>
  The surroundings of the transcoder. The external tools act on a world of type \<open>'w\<close>
  that the model threads through every call; the library functions whose behaviour is
  not fixed here are parameters as well.
\<close>

record 'w env =
  input_dir :: string
  output_dir :: string
  path_exists :: "string \<Rightarrow> 'w \<Rightarrow> bool"
  run_proc :: "string list \<Rightarrow> 'w \<Rightarrow> proc \<times> 'w"
  json_loads :: "string \<Rightarrow> pyval option"
  str_to_float :: "string \<Rightarrow> rat option"
  str_of_float :: "rat \<Rightarrow> string"
  py_eval :: "string \<Rightarrow> error + pyval"

section \<open>Strings and numbers\<close>

definition digit_char :: "nat \<Rightarrow> char" where
  "digit_char d =
     (if d = 0 then CHR ''0'' else if d = 1 then CHR ''1''
      else if d = 2 then CHR ''2'' else if d = 3 then CHR ''3''
      else if d = 4 then CHR ''4'' else if d = 5 then CHR ''5''
      else if d = 6 then CHR ''6'' else if d = 7 then CHR ''7''
      else if d = 8 then CHR ''8'' else CHR ''9'')"

fun str_nat :: "nat \<Rightarrow> string" where
  "str_nat n = (if n < 10 then [digit_char n] else str_nat (n div 10) @ [digit_char (n mod 10)])"

declare str_nat.simps [simp del]

text \<open>\<^verbatim>\<open>str(i)\<close> for an integer.\<close>

definition str_int :: "int \<Rightarrow> string" where
  "str_int i = (if i < 0 then CHR ''-'' # str_nat (nat (- i)) else str_nat (nat i))"

text \<open>The format specification \<^verbatim>\<open>{i:02d}\<close>.\<close>

definition fmt_02d :: "int \<Rightarrow> string" where
  "fmt_02d i = (let s = str_int i in replicate (2 - length s) CHR ''0'' @ s)"

definition digit_of :: "char \<Rightarrow> int option" where
  "digit_of c =
     map_of [(CHR ''0'', 0), (CHR ''1'', 1), (CHR ''2'', 2), (CHR ''3'', 3), (CHR ''4'', 4),
             (CHR ''5'', 5), (CHR ''6'', 6), (CHR ''7'', 7), (CHR ''8'', 8), (CHR ''9'', 9)] c"

fun parse_digits :: "int \<Rightarrow> string \<Rightarrow> int option" where
  "parse_digits acc [] = Some acc"
| "parse_digits acc (c # cs) =
     (case digit_of c of None \<Rightarrow> None | Some d \<Rightarrow> parse_digits (10 * acc + d) cs)"

text \<open>
  \<^verbatim>\<open>int(s)\<close> for a string: an optional sign followed by ASCII digits. Python also
  accepts surrounding white space and underscores between digits; such strings are
  \<^verbatim>\<open>ValueError\<close> here.
\<close>

definition int_of_str :: "string \<Rightarrow> error + int" where
  "int_of_str s =
     (case s of
        [] \<Rightarrow> Inl ValueError
      | c # cs \<Rightarrow>
          if c = CHR ''-'' then
            (if cs = [] then Inl ValueError
             else case parse_digits 0 cs of None \<Rightarrow> Inl ValueError | Some n \<Rightarrow> Inr (- n))
          else if c = CHR ''+'' then
            (if cs = [] then Inl ValueError
             else case parse_digits 0 cs of None \<Rightarrow> Inl ValueError | Some n \<Rightarrow> Inr n)
          else case parse_digits 0 s of None \<Rightarrow> Inl ValueError | Some n \<Rightarrow> Inr n)"

text \<open>\<^verbatim>\<open>s.replace('k', '')\<close>.\<close>

definition replace_k :: "string \<Rightarrow> string" where
  "replace_k s = filter (\<lambda>c. c \<noteq> CHR ''k'') s"

text \<open>\<^verbatim>\<open>os.path.join(a, b)\<close> on POSIX; also used for the \<^verbatim>\<open>/\<close> of \<^verbatim>\<open>pathlib\<close>,
  whose normalisation of the result is not modelled.\<close>

definition path_join :: "string \<Rightarrow> string \<Rightarrow> string" where
  "path_join a b =
     (if b \<noteq> [] \<and> hd b = CHR ''/'' then b
      else if a = [] \<or> last a = CHR ''/'' then a @ b
      else a @ ''/'' @ b)"

text \<open>\<^verbatim>\<open>int(v)\<close> and \<^verbatim>\<open>float(v)\<close> for a Python value.\<close>

definition py_int :: "pyval \<Rightarrow> error + int" where
  "py_int v =
     (case v of
        PInt i \<Rightarrow> Inr i
      | PBool b \<Rightarrow> Inr (if b then 1 else 0)
      | PFloat r \<Rightarrow> Inr (if 0 \<le> r then \<lfloor>r\<rfloor> else \<lceil>r\<rceil>)
      | PStr s \<Rightarrow> int_of_str s
      | _ \<Rightarrow> Inl TypeError)"

definition py_float :: "'w env \<Rightarrow> pyval \<Rightarrow> error + rat" where
  "py_float env v =
     (case v of
        PInt i \<Rightarrow> Inr (of_int i)
      | PBool b \<Rightarrow> Inr (if b then 1 else 0)
      | PFloat r \<Rightarrow> Inr r
      | PStr s \<Rightarrow> (case str_to_float env s of None \<Rightarrow> Inl ValueError | Some r \<Rightarrow> Inr r)
      | _ \<Rightarrow> Inl TypeError)"

text \<open>\<^verbatim>\<open>v[k]\<close>, \<^verbatim>\<open>v.get(k, d)\<close> and iteration over \<^verbatim>\<open>v\<close>.\<close>

definition py_getitem :: "pyval \<Rightarrow> string \<Rightarrow> error + pyval" where
  "py_getitem v k =
     (case v of
        PDict kvs \<Rightarrow> (case map_of kvs k of None \<Rightarrow> Inl KeyError | Some x \<Rightarrow> Inr x)
      | _ \<Rightarrow> Inl TypeError)"

definition py_get :: "pyval \<Rightarrow> string \<Rightarrow> pyval \<Rightarrow> error + pyval" where
  "py_get v k d =
     (case v of
        PDict kvs \<Rightarrow> (case map_of kvs k of None \<Rightarrow> Inr d | Some x \<Rightarrow> Inr x)
      | _ \<Rightarrow> Inl AttributeError)"

definition py_iter :: "pyval \<Rightarrow> error + pyval list" where
  "py_iter v =
     (case v of
        PList xs \<Rightarrow> Inr xs
      | PDict kvs \<Rightarrow> Inr (map (\<lambda>kv. PStr (fst kv)) kvs)
      | PStr s \<Rightarrow> Inr (map (\<lambda>c. PStr [c]) s)
      | _ \<Rightarrow> Inl TypeError)"

text \<open>Truth value of a Python value, as \<^verbatim>\<open>if v:\<close> tests it.\<close>

definition truthy :: "pyval \<Rightarrow> bool" where
  "truthy v =
     (case v of
        PNone \<Rightarrow> False
      | PBool b \<Rightarrow> b
      | PInt i \<Rightarrow> i \<noteq> 0
      | PFloat r \<Rightarrow> r \<noteq> 0
      | PStr s \<Rightarrow> s \<noteq> []
      | PList xs \<Rightarrow> xs \<noteq> []
      | PDict kvs \<Rightarrow> kvs \<noteq> [])"

section \<open>The catalog of quality presets\<close>

record preset =
  width :: int
  height :: int
  bitrate :: string
  audio_bitrate :: string

text \<open>\<^verbatim>\<open>self.quality_presets\<close>, in declaration order.\<close>

definition quality_presets :: "(string \<times> preset) list" where
  "quality_presets =
     [(''2160p'', \<lparr>width = 3840, height = 2160, bitrate = ''15000k'', audio_bitrate = ''192k''\<rparr>),
      (''1080p'', \<lparr>width = 1920, height = 1080, bitrate = ''5000k'', audio_bitrate = ''128k''\<rparr>),
      (''720p'', \<lparr>width = 1280, height = 720, bitrate = ''2500k'', audio_bitrate = ''128k''\<rparr>),
      (''480p'', \<lparr>width = 854, height = 480, bitrate = ''1000k'', audio_bitrate = ''96k''\<rparr>),
      (''360p'', \<lparr>width = 640, height = 360, bitrate = ''600k'', audio_bitrate = ''96k''\<rparr>)]"

section \<open>Probing the source\<close>

type_synonym metadata = "(string \<times> pyval) list"

definition ffprobe_cmd :: "string \<Rightarrow> string list" where
  "ffprobe_cmd input_file =
     [''ffprobe'', ''-v'', ''quiet'', ''-print_format'', ''json'',
      ''-show_format'', ''-show_streams'', input_file]"

text \<open>\<^verbatim>\<open>next((s for s in streams if s['codec_type'] == ty), None)\<close>: the first stream
  of the given type; a stream met before it that has no \<^verbatim>\<open>codec_type\<close> raises.\<close>

fun first_stream :: "string \<Rightarrow> pyval list \<Rightarrow> error + pyval" where
  "first_stream ty [] = Inr PNone"
| "first_stream ty (s # ss) =
     (case py_getitem s ''codec_type'' of
        Inl e \<Rightarrow> Inl e
      | Inr v \<Rightarrow> if v = PStr ty then Inr s else first_stream ty ss)"

text \<open>\<^verbatim>\<open>data['format'].get(k, d)\<close>.\<close>

definition format_get :: "pyval \<Rightarrow> string \<Rightarrow> pyval \<Rightarrow> error + pyval" where
  "format_get data k d =
     (case py_getitem data ''format'' of Inl e \<Rightarrow> Inl e | Inr f \<Rightarrow> py_get f k d)"

text \<open>The dictionary literal of lines 141 to 146.\<close>

definition format_metadata :: "'w env \<Rightarrow> pyval \<Rightarrow> error + metadata" where
  "format_metadata env data =
     (case format_get data ''duration'' (PInt 0) of Inl e \<Rightarrow> Inl e | Inr d \<Rightarrow>
      case py_float env d of Inl e \<Rightarrow> Inl e | Inr duration \<Rightarrow>
      case format_get data ''size'' (PInt 0) of Inl e \<Rightarrow> Inl e | Inr s \<Rightarrow>
      case py_int s of Inl e \<Rightarrow> Inl e | Inr size_bytes \<Rightarrow>
      case format_get data ''bit_rate'' (PInt 0) of Inl e \<Rightarrow> Inl e | Inr b \<Rightarrow>
      case py_int b of Inl e \<Rightarrow> Inl e | Inr bit_rate \<Rightarrow>
      case format_get data ''format_name'' PNone of Inl e \<Rightarrow> Inl e | Inr format_name \<Rightarrow>
        Inr [(''duration'', PFloat duration), (''size'', PInt size_bytes),
             (''bitrate'', PInt bit_rate), (''format'', format_name)])"

text \<open>The frame rate: \<^verbatim>\<open>eval(video_stream.get('r_frame_rate', '0/1'))\<close>. The
  expression evaluator receives the string as the prober printed it.\<close>

definition frame_rate :: "'w env \<Rightarrow> pyval \<Rightarrow> error + pyval" where
  "frame_rate env video_stream =
     (case py_get video_stream ''r_frame_rate'' (PStr ''0/1'') of
        Inl e \<Rightarrow> Inl e
      | Inr (PStr s) \<Rightarrow> py_eval env s
      | Inr _ \<Rightarrow> Inl TypeError)"

text \<open>\<^verbatim>\<open>metadata.update({...})\<close> of lines 149 to 154.\<close>

definition video_metadata :: "'w env \<Rightarrow> pyval \<Rightarrow> metadata \<Rightarrow> error + metadata" where
  "video_metadata env video_stream md =
     (case py_get video_stream ''width'' (PInt 0) of Inl e \<Rightarrow> Inl e | Inr w \<Rightarrow>
      case py_int w of Inl e \<Rightarrow> Inl e | Inr wd \<Rightarrow>
      case py_get video_stream ''height'' (PInt 0) of Inl e \<Rightarrow> Inl e | Inr h \<Rightarrow>
      case py_int h of Inl e \<Rightarrow> Inl e | Inr ht \<Rightarrow>
      case py_get video_stream ''codec_name'' PNone of Inl e \<Rightarrow> Inl e | Inr codec \<Rightarrow>
      case frame_rate env video_stream of Inl e \<Rightarrow> Inl e | Inr fps \<Rightarrow>
        Inr (AList.update ''fps'' fps
              (AList.update ''codec'' codec
                (AList.update ''height'' (PInt ht)
                  (AList.update ''width'' (PInt wd) md)))))"

definition audio_metadata :: "pyval \<Rightarrow> metadata \<Rightarrow> error + metadata" where
  "audio_metadata audio_stream md =
     (case py_get audio_stream ''codec_name'' PNone of Inl e \<Rightarrow> Inl e | Inr codec \<Rightarrow>
      case py_get audio_stream ''channels'' PNone of Inl e \<Rightarrow> Inl e | Inr channels \<Rightarrow>
        Inr (AList.update ''audio_channels'' channels
              (AList.update ''audio_codec'' codec md)))"

text \<open>Lines 129 to 160: from the prober's standard output to the metadata dictionary.\<close>

definition extract_metadata :: "'w env \<Rightarrow> string \<Rightarrow> error + metadata" where
  "extract_metadata env out =
     (case json_loads env out of None \<Rightarrow> Inl JSONDecodeError | Some data \<Rightarrow>
      case py_getitem data ''streams'' of Inl e \<Rightarrow> Inl e | Inr streams \<Rightarrow>
      case py_iter streams of Inl e \<Rightarrow> Inl e | Inr ss \<Rightarrow>
      case first_stream ''video'' ss of Inl e \<Rightarrow> Inl e | Inr video_stream \<Rightarrow>
      case first_stream ''audio'' ss of Inl e \<Rightarrow> Inl e | Inr audio_stream \<Rightarrow>
      case format_metadata env data of Inl e \<Rightarrow> Inl e | Inr md0 \<Rightarrow>
      case (if truthy video_stream then video_metadata env video_stream md0 else Inr md0) of
        Inl e \<Rightarrow> Inl e
      | Inr md1 \<Rightarrow> if truthy audio_stream then audio_metadata audio_stream md1 else Inr md1)"

text \<open>\<^verbatim>\<open>_get_video_metadata\<close>: only \<^verbatim>\<open>CalledProcessError\<close> is caught, and answered
  with the empty dictionary; every other exception leaves the function.\<close>

definition get_video_metadata ::
  "'w env \<Rightarrow> string \<Rightarrow> 'w \<Rightarrow> (error + metadata) \<times> 'w \<times> event list" where
  "get_video_metadata env input_file w =
     (case run_proc env (ffprobe_cmd input_file) w of
        (CalledProcessError, w') \<Rightarrow>
          (Inr [], w', [Exec (ffprobe_cmd input_file), Log ERROR ''Error getting video metadata''])
      | (ZeroExit out, w') \<Rightarrow>
          (extract_metadata env out, w', [Exec (ffprobe_cmd input_file)]))"

section \<open>Encoding one rendition\<close>

definition transcode_cmd :: "string \<Rightarrow> string \<Rightarrow> preset \<Rightarrow> int \<Rightarrow> string list" where
  "transcode_cmd input_file output_file p kbps =
     [''ffmpeg'', ''-i'', input_file,
      ''-vf'', ''scale='' @ str_int (width p) @ '':'' @ str_int (height p),
      ''-c:v'', ''libx264'', ''-preset'', ''medium'',
      ''-b:v'', bitrate p, ''-maxrate'', bitrate p,
      ''-bufsize'', str_int (kbps * 2) @ ''k'',
      ''-c:a'', ''aac'', ''-b:a'', audio_bitrate p,
      ''-movflags'', ''+faststart'', ''-y'', output_file]"

text \<open>\<^verbatim>\<open>_transcode_resolution\<close>: the path of the rendition, or \<^verbatim>\<open>None\<close> when the
  encoder exits with a non-zero status.\<close>

definition transcode_resolution ::
  "'w env \<Rightarrow> string \<Rightarrow> string \<Rightarrow> string \<Rightarrow> preset \<Rightarrow> 'w
    \<Rightarrow> (error + string option) \<times> 'w \<times> event list" where
  "transcode_resolution env input_file out_dir resolution p w =
     (let output_file = path_join out_dir (resolution @ ''.mp4'') in
      case int_of_str (replace_k (bitrate p)) of
        Inl e \<Rightarrow> (Inl e, w, [])
      | Inr kbps \<Rightarrow>
          (case run_proc env (transcode_cmd input_file output_file p kbps) w of
             (ZeroExit out, w') \<Rightarrow>
               (Inr (Some output_file), w',
                [Exec (transcode_cmd input_file output_file p kbps),
                 Log INFO (''Successfully transcoded to '' @ resolution)])
           | (CalledProcessError, w') \<Rightarrow>
               (Inr None, w',
                [Exec (transcode_cmd input_file output_file p kbps),
                 Log ERROR (''Error transcoding to '' @ resolution)])))"

text \<open>The loop of lines 72 to 87 over the requested labels; \<open>acc\<close> is
  \<^verbatim>\<open>results['resolutions']\<close>.\<close>

fun transcode_loop ::
  "'w env \<Rightarrow> string \<Rightarrow> string \<Rightarrow> string list \<Rightarrow> (string \<times> string) list \<Rightarrow> 'w
    \<Rightarrow> (error + (string \<times> string) list) \<times> 'w \<times> event list" where
  "transcode_loop env input_path video_dir [] acc w = (Inr acc, w, [])"
| "transcode_loop env input_path video_dir (resolution # rest) acc w =
     (case map_of quality_presets resolution of
        None \<Rightarrow>
          (case transcode_loop env input_path video_dir rest acc w of
             (r, w', evs) \<Rightarrow>
               (r, w', Log WARNING (''Unknown resolution: '' @ resolution @ '', skipping'') # evs))
      | Some p \<Rightarrow>
          (case transcode_resolution env input_path video_dir resolution p w of
             (Inl e, w1, evs1) \<Rightarrow>
               (Inl e, w1, Log INFO (''Transcoding to '' @ resolution) # evs1)
           | (Inr output_file, w1, evs1) \<Rightarrow>
               (case transcode_loop env input_path video_dir rest
                       (case output_file of
                          None \<Rightarrow> acc
                        | Some f \<Rightarrow> if f \<noteq> [] then AList.update resolution f acc else acc) w1 of
                  (r, w2, evs2) \<Rightarrow>
                    (r, w2, Log INFO (''Transcoding to '' @ resolution) # evs1 @ evs2))))"

section \<open>The HLS manifests\<close>

record variant =
  v_resolution :: string
  bandwidth :: int
  playlist :: string

definition hls_cmd :: "string \<Rightarrow> string \<Rightarrow> string \<Rightarrow> string list" where
  "hls_cmd video_file hls_dir resolution =
     [''ffmpeg'', ''-i'', video_file, ''-c'', ''copy'', ''-start_number'', ''0'',
      ''-hls_time'', ''6'', ''-hls_list_size'', ''0'', ''-f'', ''hls'',
      ''-hls_segment_filename'', path_join hls_dir (resolution @ ''_%03d.ts''),
      ''-y'', path_join hls_dir (resolution @ ''.m3u8'')]"

text \<open>The loop of lines 206 to 232 over \<^verbatim>\<open>resolutions.items()\<close>: the list
  \<^verbatim>\<open>variant_playlists\<close>, in the order of the dictionary.\<close>

fun hls_variants ::
  "'w env \<Rightarrow> string \<Rightarrow> (string \<times> string) list \<Rightarrow> 'w
    \<Rightarrow> (error + variant list) \<times> 'w \<times> event list" where
  "hls_variants env hls_dir [] w = (Inr [], w, [])"
| "hls_variants env hls_dir ((resolution, video_file) # rest) w =
     (case map_of quality_presets resolution of
        None \<Rightarrow> (Inl KeyError, w, [])
      | Some p \<Rightarrow>
          (case run_proc env (hls_cmd video_file hls_dir resolution) w of
             (ZeroExit out, w1) \<Rightarrow>
               (case int_of_str (replace_k (bitrate p)) of
                  Inl e \<Rightarrow> (Inl e, w1, [Exec (hls_cmd video_file hls_dir resolution)])
                | Inr kbps \<Rightarrow>
                    (case hls_variants env hls_dir rest w1 of
                       (Inl e, w2, evs) \<Rightarrow>
                         (Inl e, w2, Exec (hls_cmd video_file hls_dir resolution) # evs)
                     | (Inr vs, w2, evs) \<Rightarrow>
                         (Inr (\<lparr>v_resolution = resolution, bandwidth = kbps * 1000,
                                playlist = resolution @ ''.m3u8''\<rparr> # vs),
                          w2, Exec (hls_cmd video_file hls_dir resolution) # evs)))
           | (CalledProcessError, w1) \<Rightarrow>
               (case hls_variants env hls_dir rest w1 of
                  (r, w2, evs) \<Rightarrow>
                    (r, w2, Exec (hls_cmd video_file hls_dir resolution)
                              # Log ERROR (''Error generating HLS for '' @ resolution) # evs))))"

text \<open>\<^verbatim>\<open>sorted(variant_playlists, key=lambda x: x['bandwidth'], reverse=True)\<close>:
  Python's sort is stable, also with \<^verbatim>\<open>reverse=True\<close>, so variants of equal
  bandwidth keep the order they have in the list.\<close>

definition sorted_variants :: "variant list \<Rightarrow> variant list" where
  "sorted_variants vs = sort_key (\<lambda>v. - bandwidth v) vs"

text \<open>The two lines that the master playlist holds for one variant.\<close>

definition variant_entry :: "variant \<Rightarrow> error + string" where
  "variant_entry v =
     (case map_of quality_presets (v_resolution v) of
        None \<Rightarrow> Inl KeyError
      | Some p \<Rightarrow>
          Inr (''#EXT-X-STREAM-INF:BANDWIDTH='' @ str_int (bandwidth v) @ '',''
               @ ''RESOLUTION='' @ str_int (width p) @ ''x'' @ str_int (height p) @ [CHR 0x0A]
               @ playlist v @ [CHR 0x0A, CHR 0x0A]))"

fun variant_entries :: "variant list \<Rightarrow> error + string" where
  "variant_entries [] = Inr []"
| "variant_entries (v # vs) =
     (case variant_entry v of
        Inl e \<Rightarrow> Inl e
      | Inr t \<Rightarrow> (case variant_entries vs of Inl e \<Rightarrow> Inl e | Inr ts \<Rightarrow> Inr (t @ ts)))"

definition master_header :: string where
  "master_header = ''#EXTM3U'' @ [CHR 0x0A] @ ''#EXT-X-VERSION:3'' @ [CHR 0x0A, CHR 0x0A]"

text \<open>\<^verbatim>\<open>_generate_hls_playlist\<close>: segments every rendition, writes the master playlist
  and returns its path.\<close>

definition generate_hls_playlist ::
  "'w env \<Rightarrow> string \<Rightarrow> (string \<times> string) list \<Rightarrow> 'w
    \<Rightarrow> (error + string) \<times> 'w \<times> event list" where
  "generate_hls_playlist env out_dir rs w =
     (let hls_dir = path_join out_dir ''hls'';
          master_playlist = path_join hls_dir ''master.m3u8''
      in case hls_variants env hls_dir rs w of
           (Inl e, w', evs) \<Rightarrow> (Inl e, w', evs)
         | (Inr variant_playlists, w', evs) \<Rightarrow>
             (case variant_entries (sorted_variants variant_playlists) of
                Inl e \<Rightarrow> (Inl e, w', evs)
              | Inr body \<Rightarrow>
                  (Inr master_playlist, w',
                   evs @ [WriteFile master_playlist (master_header @ body),
                          Log INFO ''HLS playlist generated successfully''])))"

section \<open>Thumbnails and preview\<close>

text \<open>\<^verbatim>\<open>duration == 0\<close> and \<^verbatim>\<open>duration / (count + 1)\<close> for the value found in the
  metadata dictionary.\<close>

definition py_is_zero :: "pyval \<Rightarrow> bool" where
  "py_is_zero v =
     (case v of PInt i \<Rightarrow> i = 0 | PFloat r \<Rightarrow> r = 0 | PBool b \<Rightarrow> \<not> b | _ \<Rightarrow> False)"

definition py_truediv :: "pyval \<Rightarrow> int \<Rightarrow> error + rat" where
  "py_truediv v n =
     (case v of
        PInt i \<Rightarrow> if n = 0 then Inl ZeroDivisionError else Inr (of_int i / of_int n)
      | PFloat r \<Rightarrow> if n = 0 then Inl ZeroDivisionError else Inr (r / of_int n)
      | PBool b \<Rightarrow> if n = 0 then Inl ZeroDivisionError else Inr ((if b then 1 else 0) / of_int n)
      | _ \<Rightarrow> Inl TypeError)"

definition thumbnail_cmd :: "'w env \<Rightarrow> string \<Rightarrow> string \<Rightarrow> rat \<Rightarrow> string list" where
  "thumbnail_cmd env input_file output_file timestamp =
     [''ffmpeg'', ''-ss'', str_of_float env timestamp, ''-i'', input_file,
      ''-vframes'', ''1'', ''-vf'', ''scale=320:-1'', ''-y'', output_file]"

text \<open>The loop of lines 266 to 284 over \<^verbatim>\<open>range(1, count + 1)\<close>: the thumbnails
  that were extracted.\<close>

fun thumbnail_loop ::
  "'w env \<Rightarrow> string \<Rightarrow> string \<Rightarrow> rat \<Rightarrow> int list \<Rightarrow> 'w \<Rightarrow> string list \<times> 'w \<times> event list" where
  "thumbnail_loop env input_file thumbnails_dir interval [] w = ([], w, [])"
| "thumbnail_loop env input_file thumbnails_dir interval (i # rest) w =
     (let timestamp = interval * of_int i;
          output_file = path_join thumbnails_dir (''thumb_'' @ fmt_02d i @ ''.jpg'')
      in case run_proc env (thumbnail_cmd env input_file output_file timestamp) w of
           (ZeroExit out, w1) \<Rightarrow>
             (case thumbnail_loop env input_file thumbnails_dir interval rest w1 of
                (ts, w2, evs) \<Rightarrow>
                  (output_file # ts, w2,
                   Exec (thumbnail_cmd env input_file output_file timestamp) # evs))
         | (CalledProcessError, w1) \<Rightarrow>
             (case thumbnail_loop env input_file thumbnails_dir interval rest w1 of
                (ts, w2, evs) \<Rightarrow>
                  (ts, w2,
                   Exec (thumbnail_cmd env input_file output_file timestamp)
                     # Log ERROR (''Error generating thumbnail '' @ str_int i) # evs)))"

text \<open>\<^verbatim>\<open>_generate_thumbnails\<close>, with \<open>cnt\<close> for its parameter \<^verbatim>\<open>count\<close>. It probes the source
  again for the duration.\<close>

definition generate_thumbnails ::
  "'w env \<Rightarrow> string \<Rightarrow> string \<Rightarrow> int \<Rightarrow> 'w \<Rightarrow> (error + string list) \<times> 'w \<times> event list" where
  "generate_thumbnails env input_file out_dir cnt w =
     (let thumbnails_dir = path_join out_dir ''thumbnails'' in
      case get_video_metadata env input_file w of
        (Inl e, w1, evs1) \<Rightarrow> (Inl e, w1, evs1)
      | (Inr md, w1, evs1) \<Rightarrow>
          (let duration = (case map_of md ''duration'' of None \<Rightarrow> PInt 0 | Some v \<Rightarrow> v) in
           if py_is_zero duration then (Inr [], w1, evs1)
           else case py_truediv duration (cnt + 1) of
                  Inl e \<Rightarrow> (Inl e, w1, evs1)
                | Inr interval \<Rightarrow>
                    (case thumbnail_loop env input_file thumbnails_dir interval [1..cnt] w1 of
                       (ts, w2, evs2) \<Rightarrow>
                         (Inr ts, w2,
                          evs1 @ evs2
                            @ [Log INFO (''Generated '' @ str_int (int (length ts))
                                          @ '' thumbnails'')]))))"

definition preview_cmd :: "string \<Rightarrow> string \<Rightarrow> int \<Rightarrow> string list" where
  "preview_cmd input_file output_file duration =
     [''ffmpeg'', ''-i'', input_file, ''-t'', str_int duration, ''-vf'', ''scale=640:-1'',
      ''-c:v'', ''libx264'', ''-preset'', ''fast'', ''-b:v'', ''500k'',
      ''-c:a'', ''aac'', ''-b:a'', ''96k'', ''-movflags'', ''+faststart'', ''-y'', output_file]"

text \<open>\<^verbatim>\<open>_generate_preview\<close>.\<close>

definition generate_preview ::
  "'w env \<Rightarrow> string \<Rightarrow> string \<Rightarrow> int \<Rightarrow> 'w \<Rightarrow> string option \<times> 'w \<times> event list" where
  "generate_preview env input_file out_dir duration w =
     (let output_file = path_join out_dir ''preview.mp4'' in
      case run_proc env (preview_cmd input_file output_file duration) w of
        (ZeroExit out, w') \<Rightarrow>
          (Some output_file, w',
           [Exec (preview_cmd input_file output_file duration),
            Log INFO ''Preview clip generated successfully''])
      | (CalledProcessError, w') \<Rightarrow>
          (None, w',
           [Exec (preview_cmd input_file output_file duration),
            Log ERROR ''Error generating preview'']))"

section \<open>The run\<close>

text \<open>The dictionary that \<^verbatim>\<open>transcode_video\<close> returns.\<close>

record results =
  video_id :: string
  metadata :: metadata
  resolutions :: "(string \<times> string) list"
  thumbnails :: "string list"
  preview :: "string option"
  hls_playlist :: string

text \<open>
  \<^verbatim>\<open>transcode_video\<close>. The requested labels are \<^verbatim>\<open>None\<close> or a list. Creating the
  output directories is taken to succeed.
\<close>

definition transcode_video ::
  "'w env \<Rightarrow> string \<Rightarrow> string \<Rightarrow> string list option \<Rightarrow> 'w
    \<Rightarrow> (error + results) \<times> 'w \<times> event list" where
  "transcode_video env input_file vid requested w =
     (let labels = (case requested of None \<Rightarrow> map fst quality_presets | Some ls \<Rightarrow> ls);
          input_path = path_join (input_dir env) input_file
      in if \<not> path_exists env input_path w then (Inl FileNotFoundError, w, [])
         else
           let start = [Log INFO (''Starting transcoding for video '' @ vid)] in
           case get_video_metadata env input_path w of
             (Inl e, w1, evs1) \<Rightarrow> (Inl e, w1, start @ evs1)
           | (Inr md, w1, evs1) \<Rightarrow>
               (let video_output_dir = path_join (output_dir env) vid in
                case transcode_loop env input_path video_output_dir labels [] w1 of
                  (Inl e, w2, evs2) \<Rightarrow> (Inl e, w2, start @ evs1 @ evs2)
                | (Inr rs, w2, evs2) \<Rightarrow>
                    (case generate_hls_playlist env video_output_dir rs w2 of
                       (Inl e, w3, evs3) \<Rightarrow> (Inl e, w3, start @ evs1 @ evs2 @ evs3)
                     | (Inr hls, w3, evs3) \<Rightarrow>
                         (case generate_thumbnails env input_path video_output_dir 10 w3 of
                            (Inl e, w4, evs4) \<Rightarrow>
                              (Inl e, w4, start @ evs1 @ evs2 @ evs3 @ evs4)
                          | (Inr ts, w4, evs4) \<Rightarrow>
                              (case generate_preview env input_path video_output_dir 30 w4 of
                                 (pv, w5, evs5) \<Rightarrow>
                                   (Inr \<lparr>video_id = vid, metadata = md, resolutions = rs,
                                         thumbnails = ts, preview = pv, hls_playlist = hls\<rparr>,
                                    w5,
                                    start @ evs1 @ evs2 @ evs3 @ evs4 @ evs5
                                      @ [Log INFO (''Transcoding completed for video ''
                                                    @ vid)]))))))"

section \<open>Reading the trace of a run\<close>

text \<open>The processes that were started, in order.\<close>

fun execs :: "event list \<Rightarrow> string list list" where
  "execs [] = []"
| "execs (Exec c # evs) = c # execs evs"
| "execs (e # evs) = execs evs"

text \<open>The log records of level \<open>lv\<close> whose message starts with \<open>pre\<close>: what follows
  the prefix in each, in order.\<close>

fun logged :: "level \<Rightarrow> string \<Rightarrow> event list \<Rightarrow> string list" where
  "logged lv pre [] = []"
| "logged lv pre (Log l m # evs) =
     (if l = lv \<and> take (length pre) m = pre then drop (length pre) m # logged lv pre evs
      else logged lv pre evs)"
| "logged lv pre (e # evs) = logged lv pre evs"

text \<open>The labels whose encoding was started (the loop of \<^verbatim>\<open>transcode_video\<close> logs
  \<^verbatim>\<open>Transcoding to <label>\<close> before it calls the encoder), those whose encoder call
  returned with status 0, and those whose encoder call failed.\<close>

definition attempted :: "event list \<Rightarrow> string list" where
  "attempted evs = logged INFO ''Transcoding to '' evs"

definition encoded :: "event list \<Rightarrow> string list" where
  "encoded evs = logged INFO ''Successfully transcoded to '' evs"

definition encode_failed :: "event list \<Rightarrow> string list" where
  "encode_failed evs = logged ERROR ''Error transcoding to '' evs"

text \<open>The texts written to a path, in order.\<close>

fun written :: "string \<Rightarrow> event list \<Rightarrow> string list" where
  "written p [] = []"
| "written p (WriteFile q t # evs) = (if q = p then t # written p evs else written p evs)"
| "written p (e # evs) = written p evs"

text \<open>Whether a label is a key of the catalog, and its position there.\<close>

definition known :: "string \<Rightarrow> bool" where
  "known l = (map_of quality_presets l \<noteq> None)"

definition catalog_index :: "string \<Rightarrow> nat" where
  "catalog_index l = length (takeWhile (\<lambda>k. k \<noteq> l) (map fst quality_presets))"

text \<open>The order in which the claim on the master playlist puts two variants: by
  decreasing bandwidth, and by position in the catalog when the bandwidths are equal.\<close>

definition manifest_order :: "variant \<Rightarrow> variant \<Rightarrow> bool" where
  "manifest_order a b =
     (bandwidth b < bandwidth a
      \<or> (bandwidth a = bandwidth b
          \<and> catalog_index (v_resolution a) \<le> catalog_index (v_resolution b)))"

text \<open>What holds of every variant that the loop builds.\<close>

definition variant_ok :: "variant \<Rightarrow> bool" where
  "variant_ok v =
     (\<exists>p k. map_of quality_presets (v_resolution v) = Some p
        \<and> bitrate p = str_int k @ ''k''
        \<and> int_of_str (replace_k (bitrate p)) = Inr k
        \<and> bandwidth v = k * 1000
        \<and> playlist v = v_resolution v @ ''.m3u8'')"

section \<open>A sample environment\<close>

text \<open>What the prober prints for a thirty-second clip with one video and one audio
  stream, once decoded.\<close>

definition sample_probe :: pyval where
  "sample_probe =
     PDict [(''streams'',
             PList [PDict [(''codec_type'', PStr ''video''), (''codec_name'', PStr ''h264''),
                           (''width'', PInt 1920), (''height'', PInt 1080),
                           (''r_frame_rate'', PStr ''30/1'')],
                    PDict [(''codec_type'', PStr ''audio''), (''codec_name'', PStr ''aac''),
                           (''channels'', PInt 2)]]),
            (''format'',
             PDict [(''format_name'', PStr ''mov,mp4''), (''duration'', PStr ''30.000000''),
                    (''size'', PStr ''1048576''), (''bit_rate'', PStr ''279620'')])]"

text \<open>The same clip with a frame rate that is an expression but not a fraction.\<close>

definition sample_probe_expr :: pyval where
  "sample_probe_expr =
     PDict [(''streams'',
             PList [PDict [(''codec_type'', PStr ''video''),
                           (''r_frame_rate'', PStr ''15+15'')]]),
            (''format'', PDict [(''duration'', PStr ''30.000000'')])]"

text \<open>What the prober prints for a still image: no streams listed, and a format without
  duration.\<close>

definition sample_probe_still :: pyval where
  "sample_probe_still =
     PDict [(''streams'', PList []), (''format'', PDict [(''format_name'', PStr ''image2'')])]"

text \<open>
  An environment for running the model: the world counts the processes started; the
  prober answers \<open>probe\<close>; an encoder call fails when \<open>fails\<close> holds of its argument
  vector. The library functions are given on the few strings that occur; a float is
  printed with three decimals.
\<close>

definition sample_env :: "proc \<Rightarrow> (string list \<Rightarrow> bool) \<Rightarrow> nat env" where
  "sample_env probe fails =
     \<lparr>input_dir = ''uploads'', output_dir = ''transcoded'',
      path_exists = (\<lambda>p w. True),
      run_proc = (\<lambda>cmd w.
        (if take 1 cmd = [''ffprobe''] then probe
         else if fails cmd then CalledProcessError else ZeroExit [], Suc w)),
      json_loads = (\<lambda>s.
        if s = ''clip'' then Some sample_probe
        else if s = ''expr'' then Some sample_probe_expr
        else if s = ''still'' then Some sample_probe_still
        else None),
      str_to_float = (\<lambda>s.
        if s = ''30.000000'' then Some 30 else if s = ''0.000000'' then Some 0 else None),
      str_of_float = (\<lambda>r.
        str_int (\<lfloor>r * 1000\<rfloor> div 1000) @ ''.''
          @ tl (str_int (1000 + \<lfloor>r * 1000\<rfloor> mod 1000))),
      py_eval = (\<lambda>s.
        if s = ''30/1'' then Inr (PFloat 30)
        else if s = ''0/1'' then Inr (PFloat 0)
        else if s = ''15+15'' then Inr (PInt 30)
        else Inl (OtherError ''SyntaxError''))\<rparr>"

text \<open>
  An environment in which the same command does not always end the same way: the prober
  answers the sample clip, and of the processes started afterwards the second one (the
  third of the run) fails.
\<close>

definition flaky_env :: "nat env" where
  "flaky_env =
     (sample_env (ZeroExit ''clip'') (\<lambda>c. False))
       \<lparr>run_proc := (\<lambda>cmd w.
          (if take 1 cmd = [''ffprobe''] then ZeroExit ''clip''
           else if w = 2 then CalledProcessError else ZeroExit [], Suc w))\<rparr>"

text \<open>The time of the \<open>i\<close>-th thumbnail of \<open>cnt\<close>, lines 263 and 267:
  \<^verbatim>\<open>interval = duration / (count + 1)\<close> and \<^verbatim>\<open>timestamp = interval * i\<close>.\<close>

definition timestamp :: "rat \<Rightarrow> int \<Rightarrow> int \<Rightarrow> rat" where
  "timestamp duration cnt i = duration / of_int (cnt + 1) * of_int i"

section \<open>Auxiliary facts\<close>

lemmas str_eval = str_int_def str_nat.simps digit_char_def fmt_02d_def

lemma logged_append: "logged lv pre (xs @ ys) = logged lv pre xs @ logged lv pre ys"
  by (induction lv pre xs rule: logged.induct) auto

lemma execs_append: "execs (xs @ ys) = execs xs @ execs ys"
  by (induction xs rule: execs.induct) auto

lemma written_append: "written p (xs @ ys) = written p xs @ written p ys"
  by (induction p xs rule: written.induct) auto

lemma str_int_catalog:
  "str_int 15000 = ''15000''" "str_int 5000 = ''5000''" "str_int 2500 = ''2500''"
  "str_int 1000 = ''1000''" "str_int 600 = ''600''"
  by (simp_all add: str_eval)

lemma s2: "fmt_02d 7 = ''07''" "fmt_02d 10 = ''10''" by (simp_all add: str_eval)

lemma int_of_str_catalog:
  "int_of_str (replace_k ''15000k'') = Inr 15000"
  "int_of_str (replace_k ''5000k'') = Inr 5000"
  "int_of_str (replace_k ''2500k'') = Inr 2500"
  "int_of_str (replace_k ''1000k'') = Inr 1000"
  "int_of_str (replace_k ''600k'') = Inr 600"
  by (simp_all add: int_of_str_def replace_k_def digit_of_def)

lemma catalog_bitrate:
  assumes "map_of quality_presets l = Some p"
  shows "\<exists>k. int_of_str (replace_k (bitrate p)) = Inr k \<and> bitrate p = str_int k @ ''k'' \<and> 0 < k"
  using map_of_SomeD [OF assms]
  by (auto simp: quality_presets_def int_of_str_catalog str_int_catalog)

lemma path_join_nonempty: "b \<noteq> [] \<Longrightarrow> path_join a b \<noteq> []"
  by (simp add: path_join_def)

lemma logged_simps2:
  "logged INFO ''Transcoding to '' [Exec c, Log INFO (''Successfully transcoded to '' @ l)] = []"
  "logged INFO ''Transcoding to '' [Exec c, Log ERROR (''Error transcoding to '' @ l)] = []"
  "logged INFO ''Successfully transcoded to '' [Exec c, Log INFO (''Successfully transcoded to '' @ l)] = [l]"
  "logged INFO ''Successfully transcoded to '' [Exec c, Log ERROR (''Error transcoding to '' @ l)] = []"
  "logged ERROR ''Error transcoding to '' [Exec c, Log INFO (''Successfully transcoded to '' @ l)] = []"
  "logged ERROR ''Error transcoding to '' [Exec c, Log ERROR (''Error transcoding to '' @ l)] = [l]"
  by simp_all

lemma transcode_resolution_catalog:
  assumes "map_of quality_presets l = Some p"
  obtains (enc_ok) c w' where
      "transcode_resolution env ip vd l p w =
         (Inr (Some (path_join vd (l @ ''.mp4''))), w',
          [Exec c, Log INFO (''Successfully transcoded to '' @ l)])"
    | (enc_failed) c w' where
      "transcode_resolution env ip vd l p w =
         (Inr None, w', [Exec c, Log ERROR (''Error transcoding to '' @ l)])"
proof -
  obtain k where k: "int_of_str (replace_k (bitrate p)) = Inr k"
    using catalog_bitrate [OF assms] by blast
  obtain r w' where r: "run_proc env (transcode_cmd ip (path_join vd (l @ ''.mp4'')) p k) w = (r, w')"
    by (cases "run_proc env (transcode_cmd ip (path_join vd (l @ ''.mp4'')) p k) w")
  show thesis
  proof (cases r)
    case (ZeroExit out)
    then show thesis using enc_ok [of w' "transcode_cmd ip (path_join vd (l @ ''.mp4'')) p k"] r k
      by (simp add: transcode_resolution_def Let_def)
  next
    case CalledProcessError
    then show thesis using enc_failed [of w' "transcode_cmd ip (path_join vd (l @ ''.mp4'')) p k"] r k
      by (simp add: transcode_resolution_def Let_def)
  qed
qed


lemma transcode_loop_Cons_cases:
  obtains (unknown)
      "\<not> known l"
      "transcode_loop env ip vd (l # ls) acc w =
         (fst (transcode_loop env ip vd ls acc w),
          fst (snd (transcode_loop env ip vd ls acc w)),
          Log WARNING (''Unknown resolution: '' @ l @ '', skipping'')
            # snd (snd (transcode_loop env ip vd ls acc w)))"
    | (ok) c w1 where
      "known l"
      "transcode_loop env ip vd (l # ls) acc w =
         (fst (transcode_loop env ip vd ls (AList.update l (path_join vd (l @ ''.mp4'')) acc) w1),
          fst (snd (transcode_loop env ip vd ls (AList.update l (path_join vd (l @ ''.mp4'')) acc) w1)),
          Log INFO (''Transcoding to '' @ l) # Exec c
            # Log INFO (''Successfully transcoded to '' @ l)
            # snd (snd (transcode_loop env ip vd ls
                          (AList.update l (path_join vd (l @ ''.mp4'')) acc) w1)))"
    | (failed) c w1 where
      "known l"
      "transcode_loop env ip vd (l # ls) acc w =
         (fst (transcode_loop env ip vd ls acc w1),
          fst (snd (transcode_loop env ip vd ls acc w1)),
          Log INFO (''Transcoding to '' @ l) # Exec c
            # Log ERROR (''Error transcoding to '' @ l)
            # snd (snd (transcode_loop env ip vd ls acc w1)))"
proof (cases "map_of quality_presets l")
  case None
  then show thesis using unknown by (simp add: known_def case_prod_beta)
next
  case (Some p)
  from Some show thesis
  proof (cases rule: transcode_resolution_catalog [where env = env and ip = ip and vd = vd and w = w])
    case (enc_ok c w')
    then show thesis
      using Some ok [of w' c] path_join_nonempty [of "l @ ''.mp4''" vd]
      by (simp add: known_def case_prod_beta)
  next
    case (enc_failed c w')
    then show thesis
      using Some failed [of w' c]
      by (simp add: known_def case_prod_beta)
  qed
qed


lemma transcode_loop_attempted:
  "attempted (snd (snd (transcode_loop env ip vd ls acc w))) = filter known ls"
proof (induction ls arbitrary: acc w)
  case Nil
  show ?case by (simp add: attempted_def)
next
  case (Cons l ls)
  show ?case
    using Cons.IH
    by (cases rule: transcode_loop_Cons_cases [of l env ip vd ls acc w])
       (simp_all add: attempted_def)
qed

lemma transcode_loop_outcomes:
  "set (encoded (snd (snd (transcode_loop env ip vd ls acc w))))
     \<union> set (encode_failed (snd (snd (transcode_loop env ip vd ls acc w))))
   = {l \<in> set ls. known l}"
proof (induction ls arbitrary: acc w)
  case Nil
  show ?case by (simp add: encoded_def encode_failed_def)
next
  case (Cons l ls)
  show ?case
    using Cons.IH
    by (cases rule: transcode_loop_Cons_cases [of l env ip vd ls acc w])
       (auto simp: encoded_def encode_failed_def)
qed

lemma transcode_loop_disjoint:
  "distinct ls \<Longrightarrow>
   set (encoded (snd (snd (transcode_loop env ip vd ls acc w))))
     \<inter> set (encode_failed (snd (snd (transcode_loop env ip vd ls acc w)))) = {}"
proof (induction ls arbitrary: acc w)
  case Nil
  show ?case by (simp add: encoded_def encode_failed_def)
next
  case (Cons l ls)
  have notin: "l \<notin> set (encoded (snd (snd (transcode_loop env ip vd ls a v))))"
              "l \<notin> set (encode_failed (snd (snd (transcode_loop env ip vd ls a v))))" for a v
    using transcode_loop_outcomes [of env ip vd ls a v] Cons.prems by auto
  have IH: "set (encoded (snd (snd (transcode_loop env ip vd ls a v))))
     \<inter> set (encode_failed (snd (snd (transcode_loop env ip vd ls a v)))) = {}" for a v
    using Cons.IH Cons.prems by simp
  show ?case
    using IH notin
    by (cases rule: transcode_loop_Cons_cases [of l env ip vd ls acc w])
       (auto simp: encoded_def encode_failed_def)
qed

lemma transcode_loop_keys:
  "fst (transcode_loop env ip vd ls acc w) = Inr rs \<Longrightarrow>
   set (map fst rs)
     = set (map fst acc) \<union> set (encoded (snd (snd (transcode_loop env ip vd ls acc w))))"
proof (induction ls arbitrary: acc w)
  case Nil
  then show ?case by (auto simp: encoded_def)
next
  case (Cons l ls)
  show ?case
    using Cons.IH Cons.prems
    by (cases rule: transcode_loop_Cons_cases [of l env ip vd ls acc w])
       (auto simp: encoded_def dom_update)
qed

lemma transcode_loop_distinct:
  "fst (transcode_loop env ip vd ls acc w) = Inr rs \<Longrightarrow> distinct (map fst acc)
   \<Longrightarrow> distinct (map fst rs)"
proof (induction ls arbitrary: acc w)
  case Nil
  then show ?case by auto
next
  case (Cons l ls)
  show ?case
    using Cons.IH Cons.prems
    by (cases rule: transcode_loop_Cons_cases [of l env ip vd ls acc w])
       (auto simp: distinct_update)
qed

lemma transcode_loop_skipped:
  "logged WARNING ''Unknown resolution: '' (snd (snd (transcode_loop env ip vd ls acc w)))
   = map (\<lambda>l. l @ '', skipping'') (filter (\<lambda>l. \<not> known l) ls)"
proof (induction ls arbitrary: acc w)
  case Nil
  show ?case by simp
next
  case (Cons l ls)
  show ?case
    using Cons.IH
    by (cases rule: transcode_loop_Cons_cases [of l env ip vd ls acc w]) simp_all
qed

lemma transcode_loop_written:
  "written q (snd (snd (transcode_loop env ip vd ls acc w))) = []"
proof (induction ls arbitrary: acc w)
  case Nil
  show ?case by simp
next
  case (Cons l ls)
  show ?case
    using Cons.IH
    by (cases rule: transcode_loop_Cons_cases [of l env ip vd ls acc w]) simp_all
qed

text \<open>Unknown labels change neither the result nor the world.\<close>

lemma transcode_loop_filter_known:
  "fst (transcode_loop env ip vd (filter known ls) acc w) = fst (transcode_loop env ip vd ls acc w)
   \<and> fst (snd (transcode_loop env ip vd (filter known ls) acc w))
       = fst (snd (transcode_loop env ip vd ls acc w))"
proof (induction ls arbitrary: acc w)
  case Nil
  show ?case by simp
next
  case (Cons l ls)
  show ?case
  proof (cases "known l")
    case False
    then show ?thesis using Cons.IH [of acc w]
      by (simp add: known_def case_prod_beta)
  next
    case True
    then obtain p where p: "map_of quality_presets l = Some p"
      by (auto simp: known_def)
    show ?thesis
      using True p Cons.IH
      by (simp add: case_prod_beta split: sum.splits option.splits)
  qed
qed

lemma hls_variants_Cons_cases:
  obtains (unknown)
      "\<not> known l"
      "hls_variants env d ((l, f) # rest) w = (Inl KeyError, w, [])"
    | (seg_ok) c w1 p k where
      "map_of quality_presets l = Some p"
      "int_of_str (replace_k (bitrate p)) = Inr k"
      "bitrate p = str_int k @ ''k''"
      "hls_variants env d ((l, f) # rest) w =
         ((case fst (hls_variants env d rest w1) of
             Inl e \<Rightarrow> Inl e
           | Inr vs \<Rightarrow> Inr (\<lparr>v_resolution = l, bandwidth = k * 1000,
                               playlist = l @ ''.m3u8''\<rparr> # vs)),
          fst (snd (hls_variants env d rest w1)),
          Exec c # snd (snd (hls_variants env d rest w1)))"
    | (seg_failed) c w1 where
      "known l"
      "hls_variants env d ((l, f) # rest) w =
         (fst (hls_variants env d rest w1),
          fst (snd (hls_variants env d rest w1)),
          Exec c # Log ERROR (''Error generating HLS for '' @ l)
            # snd (snd (hls_variants env d rest w1)))"
proof (cases "map_of quality_presets l")
  case None
  then show thesis using unknown by (simp add: known_def)
next
  case (Some p)
  obtain k where k: "int_of_str (replace_k (bitrate p)) = Inr k" "bitrate p = str_int k @ ''k''"
    using catalog_bitrate [OF Some] by blast
  obtain r w1 where r: "run_proc env (hls_cmd f d l) w = (r, w1)"
    by (cases "run_proc env (hls_cmd f d l) w")
  show thesis
  proof (cases r)
    case (ZeroExit out)
    then show thesis
      using Some k r seg_ok [of p k w1 "hls_cmd f d l"]
      by (simp add: case_prod_beta split: sum.splits)
  next
    case CalledProcessError
    then show thesis
      using Some r seg_failed [of w1 "hls_cmd f d l"]
      by (simp add: known_def case_prod_beta)
  qed
qed

lemma hls_variants_props:
  assumes "\<forall>l \<in> set (map fst rs). known l"
  shows "\<exists>vs. fst (hls_variants env d rs w) = Inr vs
           \<and> set (map v_resolution vs) \<subseteq> set (map fst rs)
           \<and> (\<forall>v \<in> set vs. variant_ok v)
           \<and> (distinct (map fst rs) \<longrightarrow> distinct (map v_resolution vs))"
  using assms
proof (induction rs arbitrary: w)
  case Nil
  show ?case by simp
next
  case (Cons a rs)
  obtain l f where a: "a = (l, f)" by (cases a)
  have kn: "known l" using Cons.prems a by simp
  have IH: "\<exists>vs. fst (hls_variants env d rs v) = Inr vs
           \<and> set (map v_resolution vs) \<subseteq> set (map fst rs)
           \<and> (\<forall>v \<in> set vs. variant_ok v)
           \<and> (distinct (map fst rs) \<longrightarrow> distinct (map v_resolution vs))" for v
    using Cons.IH Cons.prems by simp
  show ?case
  proof (cases rule: hls_variants_Cons_cases [of l env d f rs w])
    case unknown
    then show ?thesis using kn by simp
  next
    case (seg_ok c w1 p k)
    from IH [of w1] obtain vs where vs: "fst (hls_variants env d rs w1) = Inr vs"
      "set (map v_resolution vs) \<subseteq> set (map fst rs)" "\<forall>v \<in> set vs. variant_ok v"
      "distinct (map fst rs) \<longrightarrow> distinct (map v_resolution vs)" by blast
    have "variant_ok \<lparr>v_resolution = l, bandwidth = k * 1000, playlist = l @ ''.m3u8''\<rparr>"
      using seg_ok(1-3) by (simp add: variant_ok_def)
    then show ?thesis using seg_ok(4) vs by (auto simp: a)
  next
    case (seg_failed c w1)
    then show ?thesis using IH [of w1] by (auto simp: a)
  qed
qed

lemma hls_variants_events:
  "logged INFO pre (snd (snd (hls_variants env d rs w))) = []
   \<and> logged WARNING pre (snd (snd (hls_variants env d rs w))) = []
   \<and> logged ERROR ''Error transcoding to '' (snd (snd (hls_variants env d rs w))) = []
   \<and> written q (snd (snd (hls_variants env d rs w))) = []"
proof (induction rs arbitrary: w)
  case Nil
  show ?case by simp
next
  case (Cons a rs)
  obtain l f where a: "a = (l, f)" by (cases a)
  show ?case
    using Cons.IH
    by (cases rule: hls_variants_Cons_cases [of l env d f rs w]) (simp_all add: a)
qed

lemma catalog_bitrate_inj:
  assumes "map_of quality_presets l1 = Some p1" "map_of quality_presets l2 = Some p2"
    and "int_of_str (replace_k (bitrate p1)) = int_of_str (replace_k (bitrate p2))"
  shows "l1 = l2"
  using map_of_SomeD [OF assms(1)] map_of_SomeD [OF assms(2)] assms(3)
  by (auto simp: quality_presets_def int_of_str_catalog)

lemma variant_ok_tie:
  assumes "variant_ok a" "variant_ok b" "bandwidth a = bandwidth b"
  shows "v_resolution a = v_resolution b"
proof -
  obtain p k where a: "map_of quality_presets (v_resolution a) = Some p"
    "int_of_str (replace_k (bitrate p)) = Inr k" "bandwidth a = k * 1000"
    using assms(1) by (auto simp: variant_ok_def)
  obtain p' k' where b: "map_of quality_presets (v_resolution b) = Some p'"
    "int_of_str (replace_k (bitrate p')) = Inr k'" "bandwidth b = k' * 1000"
    using assms(2) by (auto simp: variant_ok_def)
  have "k = k'" using a(3) b(3) assms(3) by simp
  then show ?thesis using catalog_bitrate_inj [OF a(1) b(1)] a(2) b(2) by simp
qed

lemma sorted_variants_set: "set (sorted_variants vs) = set vs"
  by (simp add: sorted_variants_def)

lemma sorted_variants_length: "length (sorted_variants vs) = length vs"
  by (simp add: sorted_variants_def)

lemma sorted_variants_desc:
  "sorted_wrt (\<lambda>a b. bandwidth b \<le> bandwidth a) (sorted_variants vs)"
proof -
  have "sorted (map (\<lambda>v. - bandwidth v) (sorted_variants vs))"
    by (simp add: sorted_variants_def)
  then show ?thesis by (simp add: sorted_map)
qed

lemma sorted_variants_stable:
  "filter (\<lambda>v. bandwidth v = b) (sorted_variants vs) = filter (\<lambda>v. bandwidth v = b) vs"
  using sort_key_stable [of "\<lambda>v. - bandwidth v" "- b" vs]
  by (simp add: sorted_variants_def)

lemma sorted_variants_manifest_order:
  assumes "\<forall>v \<in> set vs. variant_ok v"
  shows "sorted_wrt manifest_order (sorted_variants vs)"
proof (rule sorted_wrt_mono_rel [OF _ sorted_variants_desc])
  fix a b
  assume "a \<in> set (sorted_variants vs)" "b \<in> set (sorted_variants vs)"
    and le: "bandwidth b \<le> bandwidth a"
  then have ok: "variant_ok a" "variant_ok b"
    using assms by (simp_all add: sorted_variants_set)
  show "manifest_order a b"
  proof (cases "bandwidth b < bandwidth a")
    case True
    then show ?thesis by (simp add: manifest_order_def)
  next
    case False
    with le have eq: "bandwidth a = bandwidth b" by simp
    then show ?thesis using variant_ok_tie [OF ok eq] by (simp add: manifest_order_def)
  qed
qed

lemma variant_entries_total:
  assumes "\<forall>v \<in> set vs. known (v_resolution v)"
  shows "\<exists>body. variant_entries vs = Inr body"
  using assms
proof (induction vs)
  case Nil
  show ?case by simp
next
  case (Cons v vs)
  then obtain body where "variant_entries vs = Inr body" by auto
  moreover obtain p where "map_of quality_presets (v_resolution v) = Some p"
    using Cons.prems by (auto simp: known_def)
  ultimately show ?case by (simp add: variant_entry_def)
qed

lemma variant_ok_known: "variant_ok v \<Longrightarrow> known (v_resolution v)"
  by (auto simp: variant_ok_def known_def)

text \<open>The playlist stage on a dictionary of known labels.\<close>

lemma generate_hls_playlist_known:
  assumes "\<forall>l \<in> set (map fst rs). known l"
  shows "\<exists>vs body w' evs.
           hls_variants env (path_join out ''hls'') rs w = (Inr vs, w', evs)
         \<and> variant_entries (sorted_variants vs) = Inr body
         \<and> generate_hls_playlist env out rs w =
             (Inr (path_join (path_join out ''hls'') ''master.m3u8''), w',
              evs @ [WriteFile (path_join (path_join out ''hls'') ''master.m3u8'')
                       (master_header @ body),
                     Log INFO ''HLS playlist generated successfully''])"
proof -
  obtain vs where vs: "fst (hls_variants env (path_join out ''hls'') rs w) = Inr vs"
    "\<forall>v \<in> set vs. variant_ok v"
    using hls_variants_props [OF assms, of env "path_join out ''hls''" w] by blast
  obtain w' evs where h: "hls_variants env (path_join out ''hls'') rs w = (Inr vs, w', evs)"
    using vs(1) by (cases "hls_variants env (path_join out ''hls'') rs w") auto
  have "\<forall>v \<in> set (sorted_variants vs). known (v_resolution v)"
    using vs(2) by (simp add: sorted_variants_set variant_ok_known)
  then obtain body where b: "variant_entries (sorted_variants vs) = Inr body"
    using variant_entries_total by blast
  show ?thesis using h b by (simp add: generate_hls_playlist_def Let_def)
qed

lemma get_video_metadata_events:
  "logged INFO pre (snd (snd (get_video_metadata env f w))) = []
   \<and> logged WARNING pre (snd (snd (get_video_metadata env f w))) = []
   \<and> logged ERROR ''Error transcoding to '' (snd (snd (get_video_metadata env f w))) = []
   \<and> written q (snd (snd (get_video_metadata env f w))) = []"
  by (simp add: get_video_metadata_def split: prod.splits proc.splits)

lemma thumbnail_loop_Cons_cases:
  obtains (thumb_ok) w1 where
      "thumbnail_loop env f d iv (i # rest) w =
         (path_join d (''thumb_'' @ fmt_02d i @ ''.jpg'') # fst (thumbnail_loop env f d iv rest w1),
          fst (snd (thumbnail_loop env f d iv rest w1)),
          Exec (thumbnail_cmd env f (path_join d (''thumb_'' @ fmt_02d i @ ''.jpg''))
                  (iv * of_int i))
            # snd (snd (thumbnail_loop env f d iv rest w1)))"
    | (thumb_failed) w1 where
      "thumbnail_loop env f d iv (i # rest) w =
         (fst (thumbnail_loop env f d iv rest w1),
          fst (snd (thumbnail_loop env f d iv rest w1)),
          Exec (thumbnail_cmd env f (path_join d (''thumb_'' @ fmt_02d i @ ''.jpg''))
                  (iv * of_int i))
            # Log ERROR (''Error generating thumbnail '' @ str_int i)
            # snd (snd (thumbnail_loop env f d iv rest w1)))"
proof -
  obtain r w1 where r: "run_proc env (thumbnail_cmd env f
      (path_join d (''thumb_'' @ fmt_02d i @ ''.jpg'')) (iv * of_int i)) w = (r, w1)"
    by (cases "run_proc env (thumbnail_cmd env f
      (path_join d (''thumb_'' @ fmt_02d i @ ''.jpg'')) (iv * of_int i)) w")
  show thesis
  proof (cases r)
    case (ZeroExit out)
    then show thesis using r thumb_ok [of w1] by (simp add: Let_def case_prod_beta)
  next
    case CalledProcessError
    then show thesis using r thumb_failed [of w1] by (simp add: Let_def case_prod_beta)
  qed
qed

lemma thumbnail_loop_events:
  "logged INFO pre (snd (snd (thumbnail_loop env f d iv is w))) = []
   \<and> logged WARNING pre (snd (snd (thumbnail_loop env f d iv is w))) = []
   \<and> logged ERROR ''Error transcoding to '' (snd (snd (thumbnail_loop env f d iv is w))) = []
   \<and> written q (snd (snd (thumbnail_loop env f d iv is w))) = []"
proof (induction "is" arbitrary: w)
  case Nil
  show ?case by simp
next
  case (Cons i "is")
  show ?case using Cons.IH
    by (cases rule: thumbnail_loop_Cons_cases [of env f d iv i "is" w]) simp_all
qed

lemma generate_thumbnails_events:
  "logged INFO ''Transcoding to '' (snd (snd (generate_thumbnails env f out n w))) = []
   \<and> logged INFO ''Successfully transcoded to '' (snd (snd (generate_thumbnails env f out n w))) = []
   \<and> logged WARNING pre (snd (snd (generate_thumbnails env f out n w))) = []
   \<and> logged ERROR ''Error transcoding to '' (snd (snd (generate_thumbnails env f out n w))) = []
   \<and> written q (snd (snd (generate_thumbnails env f out n w))) = []"
proof -
  obtain r w1 evs1 where m: "get_video_metadata env f w = (r, w1, evs1)"
    by (cases "get_video_metadata env f w")
  have e1: "logged INFO pre evs1 = []" "logged WARNING pre evs1 = []"
    "logged ERROR ''Error transcoding to '' evs1 = []" "written q evs1 = []" for pre
    using get_video_metadata_events [of _ env f w] m by simp_all
  show ?thesis
    using e1
    by (simp add: generate_thumbnails_def m Let_def case_prod_beta logged_append written_append
          thumbnail_loop_events split: sum.splits)
qed

lemma generate_preview_events:
  "logged INFO ''Transcoding to '' (snd (snd (generate_preview env f out n w))) = []
   \<and> logged INFO ''Successfully transcoded to '' (snd (snd (generate_preview env f out n w))) = []
   \<and> logged WARNING pre (snd (snd (generate_preview env f out n w))) = []
   \<and> logged ERROR ''Error transcoding to '' (snd (snd (generate_preview env f out n w))) = []
   \<and> written q (snd (snd (generate_preview env f out n w))) = []"
  by (simp add: generate_preview_def Let_def split: prod.splits proc.splits)

lemma transcode_video_Inr:
  assumes "transcode_video env f vid req w = (Inr r, w', evs)"
  obtains md w1 evs1 rs w2 evs2 hls w3 evs3 ts w4 evs4 pv evs5 where
    "path_exists env (path_join (input_dir env) f) w"
    "get_video_metadata env (path_join (input_dir env) f) w = (Inr md, w1, evs1)"
    "transcode_loop env (path_join (input_dir env) f) (path_join (output_dir env) vid)
       (case req of None \<Rightarrow> map fst quality_presets | Some ls \<Rightarrow> ls) [] w1 = (Inr rs, w2, evs2)"
    "generate_hls_playlist env (path_join (output_dir env) vid) rs w2 = (Inr hls, w3, evs3)"
    "generate_thumbnails env (path_join (input_dir env) f) (path_join (output_dir env) vid) 10 w3
       = (Inr ts, w4, evs4)"
    "generate_preview env (path_join (input_dir env) f) (path_join (output_dir env) vid) 30 w4
       = (pv, w', evs5)"
    "r = \<lparr>video_id = vid, metadata = md, resolutions = rs, thumbnails = ts, preview = pv,
           hls_playlist = hls\<rparr>"
    "evs = Log INFO (''Starting transcoding for video '' @ vid) # evs1 @ evs2 @ evs3 @ evs4 @ evs5
             @ [Log INFO (''Transcoding completed for video '' @ vid)]"
  using assms
  by (auto simp: transcode_video_def Let_def split: if_splits prod.splits sum.splits)

lemma transcode_video_run:
  assumes run: "transcode_video env f vid req w = (Inr r, w', evs)"
  defines "labels \<equiv> (case req of None \<Rightarrow> map fst quality_presets | Some ls \<Rightarrow> ls)"
  shows "attempted evs = filter known labels"
    and "set (map fst (resolutions r)) = set (encoded evs)"
    and "set (encoded evs) \<union> set (encode_failed evs) = {l \<in> set labels. known l}"
    and "distinct labels \<Longrightarrow> set (encoded evs) \<inter> set (encode_failed evs) = {}"
    and "logged WARNING ''Unknown resolution: '' evs
           = map (\<lambda>l. l @ '', skipping'') (filter (\<lambda>l. \<not> known l) labels)"
    and "distinct (map fst (resolutions r))"
    and "hls_playlist r
           = path_join (path_join (path_join (output_dir env) vid) ''hls'') ''master.m3u8''"
    and "\<exists>vs body. variant_entries vs = Inr body
           \<and> written (hls_playlist r) evs = [master_header @ body]
           \<and> sorted_wrt manifest_order vs
           \<and> (\<forall>v \<in> set vs. variant_ok v)
           \<and> set (map v_resolution vs) \<subseteq> set (map fst (resolutions r))
           \<and> distinct (map v_resolution vs)"
proof -
  let ?ip = "path_join (input_dir env) f" and ?vd = "path_join (output_dir env) vid"
  from run obtain md w1 evs1 rs w2 evs2 hls w3 evs3 ts w4 evs4 pv evs5 where
    m: "get_video_metadata env ?ip w = (Inr md, w1, evs1)" and
    l: "transcode_loop env ?ip ?vd labels [] w1 = (Inr rs, w2, evs2)" and
    h: "generate_hls_playlist env ?vd rs w2 = (Inr hls, w3, evs3)" and
    t: "generate_thumbnails env ?ip ?vd 10 w3 = (Inr ts, w4, evs4)" and
    p: "generate_preview env ?ip ?vd 30 w4 = (pv, w', evs5)" and
    r: "r = \<lparr>video_id = vid, metadata = md, resolutions = rs, thumbnails = ts, preview = pv,
           hls_playlist = hls\<rparr>" and
    evs: "evs = Log INFO (''Starting transcoding for video '' @ vid) # evs1 @ evs2 @ evs3 @ evs4
             @ evs5 @ [Log INFO (''Transcoding completed for video '' @ vid)]"
    unfolding labels_def by (rule transcode_video_Inr)
  have e1: "logged INFO pre evs1 = []" "logged WARNING pre evs1 = []"
    "logged ERROR ''Error transcoding to '' evs1 = []" "written q evs1 = []" for pre q
    using get_video_metadata_events [of _ env ?ip w] m by simp_all
  have e4: "logged INFO ''Transcoding to '' evs4 = []"
    "logged INFO ''Successfully transcoded to '' evs4 = []" "logged WARNING pre evs4 = []"
    "logged ERROR ''Error transcoding to '' evs4 = []" "written q evs4 = []" for pre q
    using generate_thumbnails_events [of env ?ip ?vd 10 w3] t by simp_all
  have e5: "logged INFO ''Transcoding to '' evs5 = []"
    "logged INFO ''Successfully transcoded to '' evs5 = []" "logged WARNING pre evs5 = []"
    "logged ERROR ''Error transcoding to '' evs5 = []" "written q evs5 = []" for pre q
    using generate_preview_events [of env ?ip ?vd 30 w4] p by simp_all
  have keys: "set (map fst rs) = set (encoded evs2)"
    using transcode_loop_keys [of env ?ip ?vd labels "[]" w1 rs] l by simp
  have dist: "distinct (map fst rs)"
    using transcode_loop_distinct [of env ?ip ?vd labels "[]" w1 rs] l by simp
  have out: "set (encoded evs2) \<union> set (encode_failed evs2) = {l \<in> set labels. known l}"
    using transcode_loop_outcomes [of env ?ip ?vd labels "[]" w1] l by simp
  have kn: "\<forall>l \<in> set (map fst rs). known l"
    using keys out by auto
  from generate_hls_playlist_known [OF kn, of env ?vd w2] h
  obtain vs body evsh where
    hv: "hls_variants env (path_join ?vd ''hls'') rs w2 = (Inr vs, w3, evsh)" and
    body: "variant_entries (sorted_variants vs) = Inr body" and
    hls: "hls = path_join (path_join ?vd ''hls'') ''master.m3u8''" and
    evs3: "evs3 = evsh @ [WriteFile hls (master_header @ body),
                          Log INFO ''HLS playlist generated successfully'']"
    by auto
  have e3: "logged INFO pre evsh = []" "logged WARNING pre evsh = []"
    "logged ERROR ''Error transcoding to '' evsh = []" "written q evsh = []" for pre q
    using hls_variants_events [of _ env "path_join ?vd ''hls''" rs w2] hv by simp_all
  have e2w: "written q evs2 = []" for q
    using transcode_loop_written [of q env ?ip ?vd labels "[]" w1] l by simp
  show "attempted evs = filter known labels"
    using transcode_loop_attempted [of env ?ip ?vd labels "[]" w1] l e1 e3 e4 e5
    by (simp add: evs evs3 attempted_def logged_append)
  have enc: "encoded evs = encoded evs2"
    using e1 e3 e4 e5 by (simp add: evs evs3 encoded_def logged_append)
  have fl: "encode_failed evs = encode_failed evs2"
    using e1 e3 e4 e5 by (simp add: evs evs3 encode_failed_def logged_append)
  show "set (map fst (resolutions r)) = set (encoded evs)"
    using keys enc by (simp add: r)
  show "set (encoded evs) \<union> set (encode_failed evs) = {l \<in> set labels. known l}"
    using out enc fl by simp
  show "set (encoded evs) \<inter> set (encode_failed evs) = {}" if "distinct labels"
    using transcode_loop_disjoint [OF that, of env ?ip ?vd "[]" w1] l enc fl by simp
  show "logged WARNING ''Unknown resolution: '' evs
           = map (\<lambda>l. l @ '', skipping'') (filter (\<lambda>l. \<not> known l) labels)"
    using transcode_loop_skipped [of env ?ip ?vd labels "[]" w1] l e1 e3 e4 e5
    by (simp add: evs evs3 logged_append)
  show "distinct (map fst (resolutions r))"
    using dist by (simp add: r)
  show "hls_playlist r = path_join (path_join ?vd ''hls'') ''master.m3u8''"
    using hls by (simp add: r)
  have props: "set (map v_resolution vs) \<subseteq> set (map fst rs)" "\<forall>v \<in> set vs. variant_ok v"
    "distinct (map v_resolution vs)"
    using hls_variants_props [OF kn, of env "path_join ?vd ''hls''" w2] hv dist by auto
  have w: "written (hls_playlist r) evs = [master_header @ body]"
    using e1 e2w e3 e4 e5 by (simp add: evs evs3 written_append r)
  have d: "distinct (map v_resolution (sorted_variants vs))"
    using props(3) by (simp add: sorted_variants_def distinct_map)
  show "\<exists>vs body. variant_entries vs = Inr body
           \<and> written (hls_playlist r) evs = [master_header @ body]
           \<and> sorted_wrt manifest_order vs
           \<and> (\<forall>v \<in> set vs. variant_ok v)
           \<and> set (map v_resolution vs) \<subseteq> set (map fst (resolutions r))
           \<and> distinct (map v_resolution vs)"
    using body w sorted_variants_manifest_order [OF props(2)] props(1,2) d
    by (intro exI [of _ "sorted_variants vs"] exI [of _ body])
       (simp add: sorted_variants_set r)
qed

section \<open>The claims\<close>

lemmas run_eval = transcode_video_def get_video_metadata_def extract_metadata_def
  format_metadata_def format_get_def video_metadata_def audio_metadata_def frame_rate_def
  py_getitem_def py_get_def py_iter_def py_int_def py_float_def truthy_def
  transcode_resolution_def generate_hls_playlist_def generate_thumbnails_def
  generate_preview_def sorted_variants_def variant_entry_def master_header_def
  py_is_zero_def py_truediv_def path_join_def ffprobe_cmd_def transcode_cmd_def hls_cmd_def
  thumbnail_cmd_def preview_cmd_def quality_presets_def int_of_str_def replace_k_def
  digit_of_def sample_env_def sample_probe_def sample_probe_expr_def sample_probe_still_def
  Let_def


lemma transcode_video_filter_known:
  "fst (transcode_video env f vid (Some (filter known ls)) w)
     = fst (transcode_video env f vid (Some ls) w)
   \<and> fst (snd (transcode_video env f vid (Some (filter known ls)) w))
     = fst (snd (transcode_video env f vid (Some ls) w))"
proof -
  let ?ip = "path_join (input_dir env) f" and ?vd = "path_join (output_dir env) vid"
  show ?thesis
  proof (cases "path_exists env ?ip w")
    case False
    then show ?thesis by (simp add: transcode_video_def)
  next
    case True
    obtain m w1 evs1 where m: "get_video_metadata env ?ip w = (m, w1, evs1)"
      by (cases "get_video_metadata env ?ip w")
    obtain a wa ea where a: "transcode_loop env ?ip ?vd ls [] w1 = (a, wa, ea)"
      by (cases "transcode_loop env ?ip ?vd ls [] w1")
    obtain eb where b: "transcode_loop env ?ip ?vd (filter known ls) [] w1 = (a, wa, eb)"
      using transcode_loop_filter_known [of env ?ip ?vd ls "[]" w1] a
      by (cases "transcode_loop env ?ip ?vd (filter known ls) [] w1") simp
    show ?thesis
    proof (cases m)
      case (Inl e)
      then show ?thesis using True m by (simp add: transcode_video_def)
    next
      case md: (Inr md)
      show ?thesis
      proof (cases a)
        case (Inl e)
        then show ?thesis using True m md a b by (simp add: transcode_video_def)
      next
        case rs: (Inr rs)
        obtain h w3 e3 where h: "generate_hls_playlist env ?vd rs wa = (h, w3, e3)"
          by (cases "generate_hls_playlist env ?vd rs wa")
        show ?thesis
        proof (cases h)
          case (Inl e)
          then show ?thesis using True m md a b rs h by (simp add: transcode_video_def)
        next
          case hp: (Inr hp)
          obtain t w4 e4 where t: "generate_thumbnails env ?ip ?vd 10 w3 = (t, w4, e4)"
            by (cases "generate_thumbnails env ?ip ?vd 10 w3")
          obtain pv w5 e5 where p: "generate_preview env ?ip ?vd 30 w4 = (pv, w5, e5)"
            by (cases "generate_preview env ?ip ?vd 30 w4")
          show ?thesis
            using True m md a b rs h hp t p
            by (cases t) (simp_all add: transcode_video_def)
        qed
      qed
    qed
  qed
qed
text \<open>
  C7: a requested label that is not a key of the catalog is skipped with a warning and does
  not abort the run. The run returns the same result and leaves the same world as the run
  without the unknown labels; its result has no rendition for the unknown label, the
  warning is logged, and every requested label of the catalog is attempted, in order.
\<close>

theorem unknown_label_skipped:
  assumes "transcode_video env f vid (Some ls) w = (Inr r, w', evs)"
    and "l \<in> set ls" and "\<not> known l"
  shows "l \<notin> set (map fst (resolutions r))
    \<and> l @ '', skipping'' \<in> set (logged WARNING ''Unknown resolution: '' evs)
    \<and> attempted evs = filter known ls
    \<and> fst (transcode_video env f vid (Some (filter known ls)) w) = Inr r
    \<and> fst (snd (transcode_video env f vid (Some (filter known ls)) w)) = w'"
proof -
  have "set (map fst (resolutions r)) \<subseteq> {l \<in> set ls. known l}"
    using transcode_video_run(2,3) [OF assms(1)] by auto
  then have 1: "l \<notin> set (map fst (resolutions r))"
    using assms(3) by auto
  have 2: "l @ '', skipping'' \<in> set (logged WARNING ''Unknown resolution: '' evs)"
    using transcode_video_run(5) [OF assms(1)] assms(2,3) by auto
  have 3: "attempted evs = filter known ls"
    using transcode_video_run(1) [OF assms(1)] by simp
  have 4: "fst (transcode_video env f vid (Some (filter known ls)) w) = Inr r"
    "fst (snd (transcode_video env f vid (Some (filter known ls)) w)) = w'"
    using transcode_video_filter_known [of env f vid ls w] assms(1) by simp_all
  show ?thesis using 1 2 3 4 by simp
qed

lemma upto_1_10: "[1..10::int] = [1, 2, 3, 4, 5, 6, 7, 8, 9, 10]"
  by (simp add: upto.simps)

lemma sample_run_unknown_label:
  "fst (transcode_video (sample_env (ZeroExit ''clip'') (\<lambda>c. False)) ''a.mp4'' ''v1''
         (Some [''1080p'', ''bogus'', ''480p'']) 0)
   = Inr \<lparr>video_id = ''v1'',
           metadata =
             [(''duration'', PFloat 30), (''size'', PInt 1048576), (''bitrate'', PInt 279620),
              (''format'', PStr ''mov,mp4''), (''width'', PInt 1920), (''height'', PInt 1080),
              (''codec'', PStr ''h264''), (''fps'', PFloat 30), (''audio_codec'', PStr ''aac''),
              (''audio_channels'', PInt 2)],
           resolutions =
             [(''1080p'', ''transcoded/v1/1080p.mp4''), (''480p'', ''transcoded/v1/480p.mp4'')],
           thumbnails =
             [''transcoded/v1/thumbnails/thumb_01.jpg'', ''transcoded/v1/thumbnails/thumb_02.jpg'',
              ''transcoded/v1/thumbnails/thumb_03.jpg'', ''transcoded/v1/thumbnails/thumb_04.jpg'',
              ''transcoded/v1/thumbnails/thumb_05.jpg'', ''transcoded/v1/thumbnails/thumb_06.jpg'',
              ''transcoded/v1/thumbnails/thumb_07.jpg'', ''transcoded/v1/thumbnails/thumb_08.jpg'',
              ''transcoded/v1/thumbnails/thumb_09.jpg'', ''transcoded/v1/thumbnails/thumb_10.jpg''],
           preview = Some ''transcoded/v1/preview.mp4'',
           hls_playlist = ''transcoded/v1/hls/master.m3u8''\<rparr>"
  by (simp add: run_eval str_eval upto_1_10)

theorem unknown_label_skipped_witness:
  "''bogus'' \<in> set [''1080p'', ''bogus'', ''480p''] \<and> \<not> known ''bogus''
   \<and> (\<exists>r. fst (transcode_video (sample_env (ZeroExit ''clip'') (\<lambda>c. False)) ''a.mp4'' ''v1''
         (Some [''1080p'', ''bogus'', ''480p'']) 0) = Inr r
       \<and> map fst (resolutions r) = [''1080p'', ''480p'']
       \<and> ''bogus'' \<notin> set (map fst (resolutions r))
       \<and> fst (transcode_video (sample_env (ZeroExit ''clip'') (\<lambda>c. False)) ''a.mp4'' ''v1''
           (Some (filter known [''1080p'', ''bogus'', ''480p''])) 0) = Inr r)
   \<and> ''bogus'' @ '', skipping''
       \<in> set (logged WARNING ''Unknown resolution: ''
             (snd (snd (transcode_video (sample_env (ZeroExit ''clip'') (\<lambda>c. False)) ''a.mp4''
                ''v1'' (Some [''1080p'', ''bogus'', ''480p'']) 0))))
   \<and> attempted (snd (snd (transcode_video (sample_env (ZeroExit ''clip'') (\<lambda>c. False)) ''a.mp4''
                ''v1'' (Some [''1080p'', ''bogus'', ''480p'']) 0)))
       = filter known [''1080p'', ''bogus'', ''480p'']"
proof -
  define env :: "nat env" where "env = sample_env (ZeroExit ''clip'') (\<lambda>c. False)"
  define ls where "ls = [''1080p'', ''bogus'', ''480p'']"
  define l where "l = ''bogus''"
  define sk where "sk = l @ '', skipping''"
  define run where "run = transcode_video env ''a.mp4'' ''v1'' (Some ls) 0"
  obtain r where r: "fst run = Inr r" "map fst (resolutions r) = [''1080p'', ''480p'']"
    using sample_run_unknown_label by (simp add: run_def env_def ls_def)
  have run: "transcode_video env ''a.mp4'' ''v1'' (Some ls) 0 = (Inr r, fst (snd run), snd (snd run))"
    using r(1) by (simp add: prod_eq_iff run_def)
  have mem: "l \<in> set ls" by (simp add: l_def ls_def)
  have unk: "\<not> known l" by (simp add: known_def quality_presets_def l_def)
  have "l \<in> set ls \<and> \<not> known l
   \<and> (\<exists>r. fst run = Inr r
       \<and> map fst (resolutions r) = [''1080p'', ''480p'']
       \<and> l \<notin> set (map fst (resolutions r))
       \<and> fst (transcode_video env ''a.mp4'' ''v1'' (Some (filter known ls)) 0) = Inr r)
   \<and> sk \<in> set (logged WARNING ''Unknown resolution: '' (snd (snd run)))
   \<and> attempted (snd (snd run)) = filter known ls"
    using unknown_label_skipped [OF run mem unk] r mem unk unfolding sk_def by auto
  then show ?thesis
    unfolding run_def env_def ls_def l_def sk_def .
qed

lemma floor_numeral_div: "\<lfloor>(numeral a :: rat) / numeral b\<rfloor> = numeral a div numeral b"
  using floor_divide_of_int_eq [of "numeral a" "numeral b", where ?'a = rat] by simp

lemma sample_run_encode_fails:
  "transcode_video (sample_env (ZeroExit ''clip'') (\<lambda>c. last c = ''transcoded/v1/720p.mp4'')) ''a.mp4'' ''v1'' (Some [''1080p'', ''720p'', ''480p'']) 0
   =
     (Inr \<lparr>video_id = ''v1'',
              metadata =
                [(''duration'', PFloat 30), (''size'', PInt 1048576),
                 (''bitrate'', PInt 279620), (''format'', PStr ''mov,mp4''),
                 (''width'', PInt 1920), (''height'', PInt 1080),
                 (''codec'', PStr ''h264''), (''fps'', PFloat 30),
                 (''audio_codec'', PStr ''aac''), (''audio_channels'', PInt 2)],
              resolutions =
                [(''1080p'', ''transcoded/v1/1080p.mp4''),
                 (''480p'', ''transcoded/v1/480p.mp4'')],
              thumbnails =
                [''transcoded/v1/thumbnails/thumb_01.jpg'',
                 ''transcoded/v1/thumbnails/thumb_02.jpg'',
                 ''transcoded/v1/thumbnails/thumb_03.jpg'',
                 ''transcoded/v1/thumbnails/thumb_04.jpg'',
                 ''transcoded/v1/thumbnails/thumb_05.jpg'',
                 ''transcoded/v1/thumbnails/thumb_06.jpg'',
                 ''transcoded/v1/thumbnails/thumb_07.jpg'',
                 ''transcoded/v1/thumbnails/thumb_08.jpg'',
                 ''transcoded/v1/thumbnails/thumb_09.jpg'',
                 ''transcoded/v1/thumbnails/thumb_10.jpg''],
              preview = Some ''transcoded/v1/preview.mp4'',
              hls_playlist = ''transcoded/v1/hls/master.m3u8''\<rparr>,
       18,
       [Log INFO ''Starting transcoding for video v1'',
        Exec
         [''ffprobe'', ''-v'', ''quiet'', ''-print_format'', ''json'',
          ''-show_format'', ''-show_streams'', ''uploads/a.mp4''],
        Log INFO ''Transcoding to 1080p'',
        Exec
         [''ffmpeg'', ''-i'', ''uploads/a.mp4'', ''-vf'', ''scale=1920:1080'',
          ''-c:v'', ''libx264'', ''-preset'', ''medium'', ''-b:v'', ''5000k'',
          ''-maxrate'', ''5000k'', ''-bufsize'', ''10000k'', ''-c:a'', ''aac'',
          ''-b:a'', ''128k'', ''-movflags'', ''+faststart'', ''-y'',
          ''transcoded/v1/1080p.mp4''],
        Log INFO ''Successfully transcoded to 1080p'',
        Log INFO ''Transcoding to 720p'',
        Exec
         [''ffmpeg'', ''-i'', ''uploads/a.mp4'', ''-vf'', ''scale=1280:720'',
          ''-c:v'', ''libx264'', ''-preset'', ''medium'', ''-b:v'', ''2500k'',
          ''-maxrate'', ''2500k'', ''-bufsize'', ''5000k'', ''-c:a'', ''aac'',
          ''-b:a'', ''128k'', ''-movflags'', ''+faststart'', ''-y'',
          ''transcoded/v1/720p.mp4''],
        Log ERROR ''Error transcoding to 720p'',
        Log INFO ''Transcoding to 480p'',
        Exec
         [''ffmpeg'', ''-i'', ''uploads/a.mp4'', ''-vf'', ''scale=854:480'',
          ''-c:v'', ''libx264'', ''-preset'', ''medium'', ''-b:v'', ''1000k'',
          ''-maxrate'', ''1000k'', ''-bufsize'', ''2000k'', ''-c:a'', ''aac'',
          ''-b:a'', ''96k'', ''-movflags'', ''+faststart'', ''-y'',
          ''transcoded/v1/480p.mp4''],
        Log INFO ''Successfully transcoded to 480p'',
        Exec
         [''ffmpeg'', ''-i'', ''transcoded/v1/1080p.mp4'', ''-c'', ''copy'',
          ''-start_number'', ''0'', ''-hls_time'', ''6'', ''-hls_list_size'',
          ''0'', ''-f'', ''hls'', ''-hls_segment_filename'',
          ''transcoded/v1/hls/1080p_%03d.ts'', ''-y'',
          ''transcoded/v1/hls/1080p.m3u8''],
        Exec
         [''ffmpeg'', ''-i'', ''transcoded/v1/480p.mp4'', ''-c'', ''copy'',
          ''-start_number'', ''0'', ''-hls_time'', ''6'', ''-hls_list_size'',
          ''0'', ''-f'', ''hls'', ''-hls_segment_filename'',
          ''transcoded/v1/hls/480p_%03d.ts'', ''-y'',
          ''transcoded/v1/hls/480p.m3u8''],
        WriteFile ''transcoded/v1/hls/master.m3u8''
         ''#EXTM3U\<newline>#EXT-X-VERSION:3\<newline>\<newline>#EXT-X-STREAM-INF:BANDWIDTH=5000000,RESOLUTION=1920x1080\<newline>1080p.m3u8\<newline>\<newline>#EXT-X-STREAM-INF:BANDWIDTH=1000000,RESOLUTION=854x480\<newline>480p.m3u8\<newline>\<newline>'',
        Log INFO ''HLS playlist generated successfully'',
        Exec
         [''ffprobe'', ''-v'', ''quiet'', ''-print_format'', ''json'',
          ''-show_format'', ''-show_streams'', ''uploads/a.mp4''],
        Exec
         [''ffmpeg'', ''-ss'', ''2.727'', ''-i'', ''uploads/a.mp4'',
          ''-vframes'', ''1'', ''-vf'', ''scale=320:-1'', ''-y'',
          ''transcoded/v1/thumbnails/thumb_01.jpg''],
        Exec
         [''ffmpeg'', ''-ss'', ''5.454'', ''-i'', ''uploads/a.mp4'',
          ''-vframes'', ''1'', ''-vf'', ''scale=320:-1'', ''-y'',
          ''transcoded/v1/thumbnails/thumb_02.jpg''],
        Exec
         [''ffmpeg'', ''-ss'', ''8.181'', ''-i'', ''uploads/a.mp4'',
          ''-vframes'', ''1'', ''-vf'', ''scale=320:-1'', ''-y'',
          ''transcoded/v1/thumbnails/thumb_03.jpg''],
        Exec
         [''ffmpeg'', ''-ss'', ''10.909'', ''-i'', ''uploads/a.mp4'',
          ''-vframes'', ''1'', ''-vf'', ''scale=320:-1'', ''-y'',
          ''transcoded/v1/thumbnails/thumb_04.jpg''],
        Exec
         [''ffmpeg'', ''-ss'', ''13.636'', ''-i'', ''uploads/a.mp4'',
          ''-vframes'', ''1'', ''-vf'', ''scale=320:-1'', ''-y'',
          ''transcoded/v1/thumbnails/thumb_05.jpg''],
        Exec
         [''ffmpeg'', ''-ss'', ''16.363'', ''-i'', ''uploads/a.mp4'',
          ''-vframes'', ''1'', ''-vf'', ''scale=320:-1'', ''-y'',
          ''transcoded/v1/thumbnails/thumb_06.jpg''],
        Exec
         [''ffmpeg'', ''-ss'', ''19.090'', ''-i'', ''uploads/a.mp4'',
          ''-vframes'', ''1'', ''-vf'', ''scale=320:-1'', ''-y'',
          ''transcoded/v1/thumbnails/thumb_07.jpg''],
        Exec
         [''ffmpeg'', ''-ss'', ''21.818'', ''-i'', ''uploads/a.mp4'',
          ''-vframes'', ''1'', ''-vf'', ''scale=320:-1'', ''-y'',
          ''transcoded/v1/thumbnails/thumb_08.jpg''],
        Exec
         [''ffmpeg'', ''-ss'', ''24.545'', ''-i'', ''uploads/a.mp4'',
          ''-vframes'', ''1'', ''-vf'', ''scale=320:-1'', ''-y'',
          ''transcoded/v1/thumbnails/thumb_09.jpg''],
        Exec
         [''ffmpeg'', ''-ss'', ''27.272'', ''-i'', ''uploads/a.mp4'',
          ''-vframes'', ''1'', ''-vf'', ''scale=320:-1'', ''-y'',
          ''transcoded/v1/thumbnails/thumb_10.jpg''],
        Log INFO ''Generated 10 thumbnails'',
        Exec
         [''ffmpeg'', ''-i'', ''uploads/a.mp4'', ''-t'', ''30'', ''-vf'',
          ''scale=640:-1'', ''-c:v'', ''libx264'', ''-preset'', ''fast'',
          ''-b:v'', ''500k'', ''-c:a'', ''aac'', ''-b:a'', ''96k'',
          ''-movflags'', ''+faststart'', ''-y'', ''transcoded/v1/preview.mp4''],
        Log INFO ''Preview clip generated successfully'',
        Log INFO ''Transcoding completed for video v1''])"
  by (simp add: run_eval str_eval upto_1_10 floor_numeral_div)

lemma hls_variants_Inr_ok:
  "fst (hls_variants env d rs w) = Inr vs \<Longrightarrow> \<forall>v \<in> set vs. variant_ok v"
proof (induction rs arbitrary: w vs)
  case Nil
  then show ?case by simp
next
  case (Cons a rs)
  obtain l f where a: "a = (l, f)" by (cases a)
  show ?case
  proof (cases rule: hls_variants_Cons_cases [of l env d f rs w])
    case unknown
    then show ?thesis using Cons.prems by (simp add: a)
  next
    case (seg_ok c w1 p k)
    from Cons.prems seg_ok(4) obtain vs' where vs': "fst (hls_variants env d rs w1) = Inr vs'"
      "vs = \<lparr>v_resolution = l, bandwidth = k * 1000, playlist = l @ ''.m3u8''\<rparr> # vs'"
      by (auto simp: a split: sum.splits)
    have "variant_ok \<lparr>v_resolution = l, bandwidth = k * 1000, playlist = l @ ''.m3u8''\<rparr>"
      using seg_ok(1-3) by (simp add: variant_ok_def)
    then show ?thesis using Cons.IH [OF vs'(1)] vs'(2) by simp
  next
    case (seg_failed c w1)
    then show ?thesis using Cons.IH [of w1 vs] Cons.prems by (simp add: a)
  qed
qed

lemma generate_hls_playlist_Inr:
  assumes "generate_hls_playlist env out rs w = (Inr m, w', evs)"
  obtains vs0 body evs0 where
    "hls_variants env (path_join out ''hls'') rs w = (Inr vs0, w', evs0)"
    "variant_entries (sorted_variants vs0) = Inr body"
    "m = path_join (path_join out ''hls'') ''master.m3u8''"
    "\<forall>v \<in> set vs0. variant_ok v"
    "written m evs = [master_header @ body]"
proof -
  obtain r w1 evs0 where h: "hls_variants env (path_join out ''hls'') rs w = (r, w1, evs0)"
    by (cases "hls_variants env (path_join out ''hls'') rs w")
  from assms h obtain vs0 where r: "r = Inr vs0"
    by (cases r) (simp_all add: generate_hls_playlist_def Let_def)
  from assms h r obtain body where b: "variant_entries (sorted_variants vs0) = Inr body"
    by (cases "variant_entries (sorted_variants vs0)")
       (simp_all add: generate_hls_playlist_def Let_def)
  have res: "m = path_join (path_join out ''hls'') ''master.m3u8''" "w' = w1"
    "evs = evs0 @ [WriteFile m (master_header @ body),
                   Log INFO ''HLS playlist generated successfully'']"
    using assms h r b by (auto simp: generate_hls_playlist_def Let_def)
  have ok: "\<forall>v \<in> set vs0. variant_ok v"
    using hls_variants_Inr_ok [of env "path_join out ''hls''" rs w vs0] h r by simp
  have "written m evs0 = []"
    using hls_variants_events [of _ env "path_join out ''hls''" rs w m] h by simp
  then have wr: "written m evs = [master_header @ body]"
    by (simp add: res(3) written_append)
  show thesis
    using that [of vs0 evs0 body] h r b res ok wr by simp
qed





text \<open>
  C6, as the code has it: a label none of whose encoder calls succeeded is not a key of
  the renditions of the run and is not listed in the master playlist, and the other
  requested labels are still encoded. The renditions are exactly the labels with a
  successful encoder call, every requested label of the catalog is attempted and
  succeeds or fails, and the one master playlist written lists only variants of
  renditions. When every label is requested once, a label whose encoder call failed
  has no successful call.
\<close>

theorem unencoded_rendition_absent:
  assumes "transcode_video env f vid (Some ls) w = (Inr r, w', evs)"
    and "l \<in> set (encode_failed evs)"
    and "l \<notin> set (encoded evs)"
  shows "l \<notin> set (map fst (resolutions r))
    \<and> set (map fst (resolutions r)) = set (encoded evs)
    \<and> attempted evs = filter known ls
    \<and> set (encoded evs) \<union> set (encode_failed evs) = {k \<in> set ls. known k}
    \<and> (distinct ls \<longrightarrow> set (encoded evs) \<inter> set (encode_failed evs) = {})
    \<and> (\<exists>vs body. written (hls_playlist r) evs = [master_header @ body]
          \<and> variant_entries vs = Inr body
          \<and> set (map v_resolution vs) \<subseteq> set (encoded evs)
          \<and> l \<notin> set (map v_resolution vs)
          \<and> (\<forall>v \<in> set vs. playlist v = v_resolution v @ ''.m3u8''))"
proof -
  note run = transcode_video_run [OF assms(1), unfolded option.case]
  have keys: "set (map fst (resolutions r)) = set (encoded evs)"
    using run(2) by simp
  have dis: "distinct ls \<longrightarrow> set (encoded evs) \<inter> set (encode_failed evs) = {}"
    using run(4) by simp
  obtain vs body where vs: "variant_entries vs = Inr body"
    "written (hls_playlist r) evs = [master_header @ body]"
    "\<forall>v \<in> set vs. variant_ok v"
    "set (map v_resolution vs) \<subseteq> set (map fst (resolutions r))"
    using run(8) by blast
  have pl: "\<forall>v \<in> set vs. playlist v = v_resolution v @ ''.m3u8''"
    using vs(3) by (auto simp: variant_ok_def)
  have sub: "set (map v_resolution vs) \<subseteq> set (encoded evs)"
    using vs(4) keys by simp
  then have "l \<notin> set (map v_resolution vs)"
    using assms(3) by auto
  with vs(1,2) sub pl
  have "\<exists>vs body. written (hls_playlist r) evs = [master_header @ body]
          \<and> variant_entries vs = Inr body
          \<and> set (map v_resolution vs) \<subseteq> set (encoded evs)
          \<and> l \<notin> set (map v_resolution vs)
          \<and> (\<forall>v \<in> set vs. playlist v = v_resolution v @ ''.m3u8'')"
    by blast
  then show ?thesis
    using keys assms(3) run(1) run(3) dis by simp
qed

theorem unencoded_rendition_absent_witness:
  "\<exists>r w' evs.
     transcode_video (sample_env (ZeroExit ''clip'') (\<lambda>c. last c = ''transcoded/v1/720p.mp4''))
       ''a.mp4'' ''v1'' (Some [''1080p'', ''720p'', ''480p'']) 0 = (Inr r, w', evs)
     \<and> distinct [''1080p'', ''720p'', ''480p'']
     \<and> ''720p'' \<in> set (encode_failed evs)
     \<and> ''720p'' \<notin> set (encoded evs)
     \<and> map fst (resolutions r) = [''1080p'', ''480p'']
     \<and> ''720p'' \<notin> set (map fst (resolutions r))
     \<and> set (map fst (resolutions r)) = set (encoded evs)
     \<and> attempted evs = filter known [''1080p'', ''720p'', ''480p'']
     \<and> set (encoded evs) \<inter> set (encode_failed evs) = {}
     \<and> (\<exists>vs body. written (hls_playlist r) evs = [master_header @ body]
           \<and> variant_entries vs = Inr body
           \<and> ''720p'' \<notin> set (map v_resolution vs))"
proof -
  define env :: "nat env"
    where "env = sample_env (ZeroExit ''clip'') (\<lambda>c. last c = ''transcoded/v1/720p.mp4'')"
  define ls where "ls = [''1080p'', ''720p'', ''480p'']"
  define l where "l = ''720p''"
  obtain r w' evs where run: "transcode_video env ''a.mp4'' ''v1'' (Some ls) 0 = (Inr r, w', evs)"
    and rs: "map fst (resolutions r) = [''1080p'', ''480p'']"
    and mem: "l \<in> set (encode_failed evs)"
    and nenc: "l \<notin> set (encoded evs)"
    unfolding env_def ls_def l_def
    by (simp add: sample_run_encode_fails encode_failed_def encoded_def)
  have dist: "distinct ls" by (simp add: ls_def)
  note c = unencoded_rendition_absent [OF run mem nenc]
  from c obtain vs body where vb: "written (hls_playlist r) evs = [master_header @ body]"
    "variant_entries vs = Inr body" "l \<notin> set (map v_resolution vs)"
    by (elim conjE exE)
  have ex: "\<exists>vs body. written (hls_playlist r) evs = [master_header @ body]
           \<and> variant_entries vs = Inr body \<and> l \<notin> set (map v_resolution vs)"
    using vb by (intro exI conjI)
  have dis: "set (encoded evs) \<inter> set (encode_failed evs) = {}"
    using c dist by simp
  have c': "l \<notin> set (map fst (resolutions r))"
    "set (map fst (resolutions r)) = set (encoded evs)" "attempted evs = filter known ls"
    using c by auto
  have "\<exists>r w' evs.
     transcode_video env ''a.mp4'' ''v1'' (Some ls) 0 = (Inr r, w', evs)
     \<and> distinct ls
     \<and> l \<in> set (encode_failed evs)
     \<and> l \<notin> set (encoded evs)
     \<and> map fst (resolutions r) = [''1080p'', ''480p'']
     \<and> l \<notin> set (map fst (resolutions r))
     \<and> set (map fst (resolutions r)) = set (encoded evs)
     \<and> attempted evs = filter known ls
     \<and> set (encoded evs) \<inter> set (encode_failed evs) = {}
     \<and> (\<exists>vs body. written (hls_playlist r) evs = [master_header @ body]
           \<and> variant_entries vs = Inr body
           \<and> l \<notin> set (map v_resolution vs))"
    using run dist mem nenc rs c' dis ex
    by (intro exI [of _ r] exI [of _ w'] exI [of _ evs] conjI)
  then show ?thesis
    unfolding env_def ls_def l_def .
qed

lemma sample_run_flaky:
  "transcode_video flaky_env ''a.mp4'' ''v1'' (Some [''720p'', ''720p'']) 0
   =
     (Inr \<lparr>video_id = ''v1'',
              metadata =
                [(''duration'', PFloat 30), (''size'', PInt 1048576),
                 (''bitrate'', PInt 279620), (''format'', PStr ''mov,mp4''),
                 (''width'', PInt 1920), (''height'', PInt 1080),
                 (''codec'', PStr ''h264''), (''fps'', PFloat 30),
                 (''audio_codec'', PStr ''aac''), (''audio_channels'', PInt 2)],
              resolutions = [(''720p'', ''transcoded/v1/720p.mp4'')],
              thumbnails =
                [''transcoded/v1/thumbnails/thumb_01.jpg'',
                 ''transcoded/v1/thumbnails/thumb_02.jpg'',
                 ''transcoded/v1/thumbnails/thumb_03.jpg'',
                 ''transcoded/v1/thumbnails/thumb_04.jpg'',
                 ''transcoded/v1/thumbnails/thumb_05.jpg'',
                 ''transcoded/v1/thumbnails/thumb_06.jpg'',
                 ''transcoded/v1/thumbnails/thumb_07.jpg'',
                 ''transcoded/v1/thumbnails/thumb_08.jpg'',
                 ''transcoded/v1/thumbnails/thumb_09.jpg'',
                 ''transcoded/v1/thumbnails/thumb_10.jpg''],
              preview = Some ''transcoded/v1/preview.mp4'',
              hls_playlist = ''transcoded/v1/hls/master.m3u8''\<rparr>,
       16,
       [Log INFO ''Starting transcoding for video v1'',
        Exec
         [''ffprobe'', ''-v'', ''quiet'', ''-print_format'', ''json'',
          ''-show_format'', ''-show_streams'', ''uploads/a.mp4''],
        Log INFO ''Transcoding to 720p'',
        Exec
         [''ffmpeg'', ''-i'', ''uploads/a.mp4'', ''-vf'', ''scale=1280:720'',
          ''-c:v'', ''libx264'', ''-preset'', ''medium'', ''-b:v'', ''2500k'',
          ''-maxrate'', ''2500k'', ''-bufsize'', ''5000k'', ''-c:a'', ''aac'',
          ''-b:a'', ''128k'', ''-movflags'', ''+faststart'', ''-y'',
          ''transcoded/v1/720p.mp4''],
        Log INFO ''Successfully transcoded to 720p'',
        Log INFO ''Transcoding to 720p'',
        Exec
         [''ffmpeg'', ''-i'', ''uploads/a.mp4'', ''-vf'', ''scale=1280:720'',
          ''-c:v'', ''libx264'', ''-preset'', ''medium'', ''-b:v'', ''2500k'',
          ''-maxrate'', ''2500k'', ''-bufsize'', ''5000k'', ''-c:a'', ''aac'',
          ''-b:a'', ''128k'', ''-movflags'', ''+faststart'', ''-y'',
          ''transcoded/v1/720p.mp4''],
        Log ERROR ''Error transcoding to 720p'',
        Exec
         [''ffmpeg'', ''-i'', ''transcoded/v1/720p.mp4'', ''-c'', ''copy'',
          ''-start_number'', ''0'', ''-hls_time'', ''6'', ''-hls_list_size'',
          ''0'', ''-f'', ''hls'', ''-hls_segment_filename'',
          ''transcoded/v1/hls/720p_%03d.ts'', ''-y'',
          ''transcoded/v1/hls/720p.m3u8''],
        WriteFile ''transcoded/v1/hls/master.m3u8''
         ''#EXTM3U\<newline>#EXT-X-VERSION:3\<newline>\<newline>#EXT-X-STREAM-INF:BANDWIDTH=2500000,RESOLUTION=1280x720\<newline>720p.m3u8\<newline>\<newline>'',
        Log INFO ''HLS playlist generated successfully'',
        Exec
         [''ffprobe'', ''-v'', ''quiet'', ''-print_format'', ''json'',
          ''-show_format'', ''-show_streams'', ''uploads/a.mp4''],
        Exec
         [''ffmpeg'', ''-ss'', ''2.727'', ''-i'', ''uploads/a.mp4'',
          ''-vframes'', ''1'', ''-vf'', ''scale=320:-1'', ''-y'',
          ''transcoded/v1/thumbnails/thumb_01.jpg''],
        Exec
         [''ffmpeg'', ''-ss'', ''5.454'', ''-i'', ''uploads/a.mp4'',
          ''-vframes'', ''1'', ''-vf'', ''scale=320:-1'', ''-y'',
          ''transcoded/v1/thumbnails/thumb_02.jpg''],
        Exec
         [''ffmpeg'', ''-ss'', ''8.181'', ''-i'', ''uploads/a.mp4'',
          ''-vframes'', ''1'', ''-vf'', ''scale=320:-1'', ''-y'',
          ''transcoded/v1/thumbnails/thumb_03.jpg''],
        Exec
         [''ffmpeg'', ''-ss'', ''10.909'', ''-i'', ''uploads/a.mp4'',
          ''-vframes'', ''1'', ''-vf'', ''scale=320:-1'', ''-y'',
          ''transcoded/v1/thumbnails/thumb_04.jpg''],
        Exec
         [''ffmpeg'', ''-ss'', ''13.636'', ''-i'', ''uploads/a.mp4'',
          ''-vframes'', ''1'', ''-vf'', ''scale=320:-1'', ''-y'',
          ''transcoded/v1/thumbnails/thumb_05.jpg''],
        Exec
         [''ffmpeg'', ''-ss'', ''16.363'', ''-i'', ''uploads/a.mp4'',
          ''-vframes'', ''1'', ''-vf'', ''scale=320:-1'', ''-y'',
          ''transcoded/v1/thumbnails/thumb_06.jpg''],
        Exec
         [''ffmpeg'', ''-ss'', ''19.090'', ''-i'', ''uploads/a.mp4'',
          ''-vframes'', ''1'', ''-vf'', ''scale=320:-1'', ''-y'',
          ''transcoded/v1/thumbnails/thumb_07.jpg''],
        Exec
         [''ffmpeg'', ''-ss'', ''21.818'', ''-i'', ''uploads/a.mp4'',
          ''-vframes'', ''1'', ''-vf'', ''scale=320:-1'', ''-y'',
          ''transcoded/v1/thumbnails/thumb_08.jpg''],
        Exec
         [''ffmpeg'', ''-ss'', ''24.545'', ''-i'', ''uploads/a.mp4'',
          ''-vframes'', ''1'', ''-vf'', ''scale=320:-1'', ''-y'',
          ''transcoded/v1/thumbnails/thumb_09.jpg''],
        Exec
         [''ffmpeg'', ''-ss'', ''27.272'', ''-i'', ''uploads/a.mp4'',
          ''-vframes'', ''1'', ''-vf'', ''scale=320:-1'', ''-y'',
          ''transcoded/v1/thumbnails/thumb_10.jpg''],
        Log INFO ''Generated 10 thumbnails'',
        Exec
         [''ffmpeg'', ''-i'', ''uploads/a.mp4'', ''-t'', ''30'', ''-vf'',
          ''scale=640:-1'', ''-c:v'', ''libx264'', ''-preset'', ''fast'',
          ''-b:v'', ''500k'', ''-c:a'', ''aac'', ''-b:a'', ''96k'',
          ''-movflags'', ''+faststart'', ''-y'', ''transcoded/v1/preview.mp4''],
        Log INFO ''Preview clip generated successfully'',
        Log INFO ''Transcoding completed for video v1''])"
  by (simp add: run_eval str_eval upto_1_10 floor_numeral_div flaky_env_def)

text \<open>
  C6 as stated fails when a label is requested twice: if its first encoder call succeeds
  and its second fails, the label has a failed encode step and still is a key of the
  renditions and is listed in the master playlist.
\<close>

theorem failed_rendition_present_counterexample:
  "encode_failed (snd (snd (transcode_video flaky_env ''a.mp4'' ''v1''
       (Some [''720p'', ''720p'']) 0))) = [''720p'']
   \<and> map_option (\<lambda>r. map fst (resolutions r))
        (case fst (transcode_video flaky_env ''a.mp4'' ''v1'' (Some [''720p'', ''720p'']) 0) of
           Inl e \<Rightarrow> None | Inr r \<Rightarrow> Some r)
       = Some [''720p'']
   \<and> written ''transcoded/v1/hls/master.m3u8''
        (snd (snd (transcode_video flaky_env ''a.mp4'' ''v1'' (Some [''720p'', ''720p'']) 0)))
       = [''#EXTM3U\<newline>#EXT-X-VERSION:3\<newline>\<newline>#EXT-X-STREAM-INF:BANDWIDTH=2500000,RESOLUTION=1280x720\<newline>720p.m3u8\<newline>\<newline>'']"
  by (simp add: sample_run_flaky encode_failed_def)

lemma hls_variants_Inr_labels:
  "fst (hls_variants env d rs w) = Inr vs \<Longrightarrow>
   set (map v_resolution vs) \<subseteq> set (map fst rs)
   \<and> (distinct (map fst rs) \<longrightarrow> distinct (map v_resolution vs))"
proof (induction rs arbitrary: w vs)
  case Nil
  then show ?case by simp
next
  case (Cons a rs)
  obtain l f where a: "a = (l, f)" by (cases a)
  show ?case
  proof (cases rule: hls_variants_Cons_cases [of l env d f rs w])
    case unknown
    then show ?thesis using Cons.prems by (simp add: a)
  next
    case (seg_ok c w1 p k)
    from Cons.prems seg_ok(4) obtain vs' where vs': "fst (hls_variants env d rs w1) = Inr vs'"
      "vs = \<lparr>v_resolution = l, bandwidth = k * 1000, playlist = l @ ''.m3u8''\<rparr> # vs'"
      by (auto simp: a split: sum.splits)
    show ?thesis using Cons.IH [OF vs'(1)] vs'(2) by (auto simp: a)
  next
    case (seg_failed c w1)
    then show ?thesis using Cons.IH [of w1 vs] Cons.prems by (auto simp: a)
  qed
qed

lemma variant_ok_three:
  assumes "variant_ok v"
  shows "v_resolution v = ''1080p'' \<Longrightarrow>
           v = \<lparr>v_resolution = ''1080p'', bandwidth = 5000000, playlist = ''1080p.m3u8''\<rparr>"
    and "v_resolution v = ''720p'' \<Longrightarrow>
           v = \<lparr>v_resolution = ''720p'', bandwidth = 2500000, playlist = ''720p.m3u8''\<rparr>"
    and "v_resolution v = ''480p'' \<Longrightarrow>
           v = \<lparr>v_resolution = ''480p'', bandwidth = 1000000, playlist = ''480p.m3u8''\<rparr>"
  using assms
  by (cases v; auto simp: variant_ok_def quality_presets_def int_of_str_catalog)+

lemma three_variants_sorted:
  assumes ok: "\<forall>v \<in> set vs0. variant_ok v"
    and dist: "distinct (map v_resolution vs0)"
    and labels: "set (map v_resolution vs0) = {''1080p'', ''720p'', ''480p''}"
  shows "sorted_variants vs0 =
           [\<lparr>v_resolution = ''1080p'', bandwidth = 5000000, playlist = ''1080p.m3u8''\<rparr>,
            \<lparr>v_resolution = ''720p'', bandwidth = 2500000, playlist = ''720p.m3u8''\<rparr>,
            \<lparr>v_resolution = ''480p'', bandwidth = 1000000, playlist = ''480p.m3u8''\<rparr>]"
proof -
  let ?a = "\<lparr>v_resolution = ''1080p'', bandwidth = 5000000, playlist = ''1080p.m3u8''\<rparr>"
  let ?b = "\<lparr>v_resolution = ''720p'', bandwidth = 2500000, playlist = ''720p.m3u8''\<rparr>"
  let ?c = "\<lparr>v_resolution = ''480p'', bandwidth = 1000000, playlist = ''480p.m3u8''\<rparr>"
  have sub: "set vs0 \<subseteq> {?a, ?b, ?c}"
  proof
    fix v assume v: "v \<in> set vs0"
    then have "v_resolution v \<in> {''1080p'', ''720p'', ''480p''}"
      using labels by auto
    then show "v \<in> {?a, ?b, ?c}"
      using variant_ok_three [of v] ok v by blast
  qed
  have sup: "{?a, ?b, ?c} \<subseteq> set vs0"
  proof -
    have "\<exists>v \<in> set vs0. v_resolution v = l" if "l \<in> {''1080p'', ''720p'', ''480p''}" for l
      using that labels by (metis (no_types, lifting) imageE list.set_map)
    then obtain va vb vc where "va \<in> set vs0" "v_resolution va = ''1080p''"
      "vb \<in> set vs0" "v_resolution vb = ''720p''" "vc \<in> set vs0" "v_resolution vc = ''480p''"
      by (metis insertCI)
    then show ?thesis
      using variant_ok_three [of va] variant_ok_three [of vb] variant_ok_three [of vc] ok
      by (metis empty_subsetI insert_subset)
  qed
  have "distinct vs0" using dist by (simp add: distinct_map)
  have d3: "distinct [?a, ?b, ?c]" by simp
  have "set vs0 = set [?a, ?b, ?c]" using sub sup by auto
  then have m: "mset vs0 = mset [?a, ?b, ?c]"
    using \<open>distinct vs0\<close> d3 set_eq_iff_mset_eq_distinct by blast
  have "inj_on (\<lambda>v. - bandwidth v) {?a, ?b, ?c}"
    by simp
  then have inj: "inj_on (\<lambda>v. - bandwidth v) (set vs0)"
    using sub by (rule inj_on_subset)
  have "sort_key (\<lambda>v. - bandwidth v) vs0 = [?a, ?b, ?c]"
    by (rule sort_key_inj_key_eq [OF m inj]) simp
  then show ?thesis by (simp add: sorted_variants_def)
qed

lemma three_variants_entries:
  "variant_entries
     [\<lparr>v_resolution = ''1080p'', bandwidth = 5000000, playlist = ''1080p.m3u8''\<rparr>,
      \<lparr>v_resolution = ''720p'', bandwidth = 2500000, playlist = ''720p.m3u8''\<rparr>,
      \<lparr>v_resolution = ''480p'', bandwidth = 1000000, playlist = ''480p.m3u8''\<rparr>]
   = Inr ''#EXT-X-STREAM-INF:BANDWIDTH=5000000,RESOLUTION=1920x1080\<newline>1080p.m3u8\<newline>\<newline>#EXT-X-STREAM-INF:BANDWIDTH=2500000,RESOLUTION=1280x720\<newline>720p.m3u8\<newline>\<newline>#EXT-X-STREAM-INF:BANDWIDTH=1000000,RESOLUTION=854x480\<newline>480p.m3u8\<newline>\<newline>''"
  by (simp add: variant_entry_def quality_presets_def str_eval)

text \<open>
  C4: the master playlist lists the variants by non-increasing bandwidth, and variants of
  equal bandwidth in the order of the catalog. For every dictionary of renditions of the
  catalog the playlist is written, and its text is the rendering of the sorted list of the
  variants that were segmented; the sort is a permutation that keeps variants of equal
  bandwidth in the order in which the loop produced them.
\<close>

theorem master_playlist_order:
  assumes "\<forall>l \<in> set (map fst rs). known l"
  shows "\<exists>vs0 body w' evs.
           generate_hls_playlist env out rs w
             = (Inr (path_join (path_join out ''hls'') ''master.m3u8''), w', evs)
         \<and> fst (hls_variants env (path_join out ''hls'') rs w) = Inr vs0
         \<and> written (path_join (path_join out ''hls'') ''master.m3u8'') evs
             = [master_header @ body]
         \<and> variant_entries (sorted_variants vs0) = Inr body
         \<and> sorted_wrt (\<lambda>a b. bandwidth b \<le> bandwidth a) (sorted_variants vs0)
         \<and> sorted_wrt manifest_order (sorted_variants vs0)
         \<and> mset (sorted_variants vs0) = mset vs0
         \<and> (\<forall>b. filter (\<lambda>v. bandwidth v = b) (sorted_variants vs0)
                = filter (\<lambda>v. bandwidth v = b) vs0)"
proof -
  let ?m = "path_join (path_join out ''hls'') ''master.m3u8''"
  from generate_hls_playlist_known [OF assms, of env out w]
  obtain w' evs where g: "generate_hls_playlist env out rs w = (Inr ?m, w', evs)"
    by blast
  from g obtain vs0 body evs0 where
    h: "hls_variants env (path_join out ''hls'') rs w = (Inr vs0, w', evs0)"
    and b: "variant_entries (sorted_variants vs0) = Inr body"
    and ok: "\<forall>v \<in> set vs0. variant_ok v"
    and wr: "written ?m evs = [master_header @ body]"
    by (rule generate_hls_playlist_Inr)
  have f: "fst (hls_variants env (path_join out ''hls'') rs w) = Inr vs0"
    using h by simp
  have ms: "mset (sorted_variants vs0) = mset vs0"
    by (simp add: sorted_variants_def)
  show ?thesis
    using g f b wr ms sorted_variants_desc [of vs0] sorted_variants_manifest_order [OF ok]
      sorted_variants_stable [of _ vs0]
    by (intro exI [of _ vs0] exI [of _ body] exI [of _ w'] exI [of _ evs]) simp
qed

lemma sample_playlist_unordered:
  "generate_hls_playlist (sample_env (ZeroExit ''clip'') (\<lambda>c. False)) ''transcoded/v1'' [(''480p'', ''transcoded/v1/480p.mp4''), (''2160p'', ''transcoded/v1/2160p.mp4''), (''720p'', ''transcoded/v1/720p.mp4'')] 0
   =
     (Inr ''transcoded/v1/hls/master.m3u8'', 3,
       [Exec
         [''ffmpeg'', ''-i'', ''transcoded/v1/480p.mp4'', ''-c'', ''copy'',
          ''-start_number'', ''0'', ''-hls_time'', ''6'', ''-hls_list_size'',
          ''0'', ''-f'', ''hls'', ''-hls_segment_filename'',
          ''transcoded/v1/hls/480p_%03d.ts'', ''-y'',
          ''transcoded/v1/hls/480p.m3u8''],
        Exec
         [''ffmpeg'', ''-i'', ''transcoded/v1/2160p.mp4'', ''-c'', ''copy'',
          ''-start_number'', ''0'', ''-hls_time'', ''6'', ''-hls_list_size'',
          ''0'', ''-f'', ''hls'', ''-hls_segment_filename'',
          ''transcoded/v1/hls/2160p_%03d.ts'', ''-y'',
          ''transcoded/v1/hls/2160p.m3u8''],
        Exec
         [''ffmpeg'', ''-i'', ''transcoded/v1/720p.mp4'', ''-c'', ''copy'',
          ''-start_number'', ''0'', ''-hls_time'', ''6'', ''-hls_list_size'',
          ''0'', ''-f'', ''hls'', ''-hls_segment_filename'',
          ''transcoded/v1/hls/720p_%03d.ts'', ''-y'',
          ''transcoded/v1/hls/720p.m3u8''],
        WriteFile ''transcoded/v1/hls/master.m3u8''
         ''#EXTM3U\<newline>#EXT-X-VERSION:3\<newline>\<newline>#EXT-X-STREAM-INF:BANDWIDTH=15000000,RESOLUTION=3840x2160\<newline>2160p.m3u8\<newline>\<newline>#EXT-X-STREAM-INF:BANDWIDTH=2500000,RESOLUTION=1280x720\<newline>720p.m3u8\<newline>\<newline>#EXT-X-STREAM-INF:BANDWIDTH=1000000,RESOLUTION=854x480\<newline>480p.m3u8\<newline>\<newline>'',
        Log INFO ''HLS playlist generated successfully''])"
  by (simp add: run_eval str_eval)

theorem master_playlist_order_witness:
  "known ''480p'' \<and> known ''2160p'' \<and> known ''720p''
   \<and> written ''transcoded/v1/hls/master.m3u8''
        (snd (snd (generate_hls_playlist (sample_env (ZeroExit ''clip'') (\<lambda>c. False))
           ''transcoded/v1''
           [(''480p'', ''transcoded/v1/480p.mp4''), (''2160p'', ''transcoded/v1/2160p.mp4''),
            (''720p'', ''transcoded/v1/720p.mp4'')] 0)))
       = [''#EXTM3U\<newline>#EXT-X-VERSION:3\<newline>\<newline>#EXT-X-STREAM-INF:BANDWIDTH=15000000,RESOLUTION=3840x2160\<newline>2160p.m3u8\<newline>\<newline>#EXT-X-STREAM-INF:BANDWIDTH=2500000,RESOLUTION=1280x720\<newline>720p.m3u8\<newline>\<newline>#EXT-X-STREAM-INF:BANDWIDTH=1000000,RESOLUTION=854x480\<newline>480p.m3u8\<newline>\<newline>'']
   \<and> (\<exists>vs0 body.
         fst (hls_variants (sample_env (ZeroExit ''clip'') (\<lambda>c. False))
           (path_join ''transcoded/v1'' ''hls'')
           [(''480p'', ''transcoded/v1/480p.mp4''), (''2160p'', ''transcoded/v1/2160p.mp4''),
            (''720p'', ''transcoded/v1/720p.mp4'')] 0) = Inr vs0
       \<and> variant_entries (sorted_variants vs0) = Inr body
       \<and> sorted_wrt manifest_order (sorted_variants vs0)
       \<and> sorted_wrt (\<lambda>a b. bandwidth b \<le> bandwidth a) (sorted_variants vs0))"
proof -
  define env :: "nat env" where "env = sample_env (ZeroExit ''clip'') (\<lambda>c. False)"
  define rs where "rs = [(''480p'', ''transcoded/v1/480p.mp4''),
    (''2160p'', ''transcoded/v1/2160p.mp4''), (''720p'', ''transcoded/v1/720p.mp4'')]"
  have kn: "\<forall>l \<in> set (map fst rs). known l"
    by (simp add: rs_def known_def quality_presets_def)
  have wr: "written ''transcoded/v1/hls/master.m3u8''
        (snd (snd (generate_hls_playlist env ''transcoded/v1'' rs 0)))
       = [''#EXTM3U\<newline>#EXT-X-VERSION:3\<newline>\<newline>#EXT-X-STREAM-INF:BANDWIDTH=15000000,RESOLUTION=3840x2160\<newline>2160p.m3u8\<newline>\<newline>#EXT-X-STREAM-INF:BANDWIDTH=2500000,RESOLUTION=1280x720\<newline>720p.m3u8\<newline>\<newline>#EXT-X-STREAM-INF:BANDWIDTH=1000000,RESOLUTION=854x480\<newline>480p.m3u8\<newline>\<newline>'']"
    unfolding env_def rs_def by (simp add: sample_playlist_unordered)
  from master_playlist_order [OF kn, of env "''transcoded/v1''" 0]
  obtain vs0 body where
    "fst (hls_variants env (path_join ''transcoded/v1'' ''hls'') rs 0) = Inr vs0"
    "variant_entries (sorted_variants vs0) = Inr body"
    "sorted_wrt manifest_order (sorted_variants vs0)"
    "sorted_wrt (\<lambda>a b. bandwidth b \<le> bandwidth a) (sorted_variants vs0)"
    by (elim exE conjE)
  then have "\<exists>vs0 body.
         fst (hls_variants env (path_join ''transcoded/v1'' ''hls'') rs 0) = Inr vs0
       \<and> variant_entries (sorted_variants vs0) = Inr body
       \<and> sorted_wrt manifest_order (sorted_variants vs0)
       \<and> sorted_wrt (\<lambda>a b. bandwidth b \<le> bandwidth a) (sorted_variants vs0)"
    by (intro exI conjI)
  moreover have "known ''480p''" "known ''2160p''" "known ''720p''"
    by (simp_all add: known_def quality_presets_def)
  ultimately show ?thesis
    using wr unfolding env_def rs_def by (intro conjI)
qed

text \<open>
  C5: every variant of the master playlist declares as bandwidth the video bitrate of its
  preset, the number in front of the \<open>k\<close>, times 1000; the audio bitrate is no part of
  it. When the renditions are 1080p, 720p and 480p and all three are segmented, the
  playlist lists 1080p, 720p, 480p with bandwidths 5000000, 2500000, 1000000, in whatever
  order the renditions were produced.
\<close>

theorem variant_bandwidth:
  assumes "\<forall>l \<in> set (map fst rs). known l"
  shows "\<exists>vs0 body w' evs.
           generate_hls_playlist env out rs w
             = (Inr (path_join (path_join out ''hls'') ''master.m3u8''), w', evs)
         \<and> fst (hls_variants env (path_join out ''hls'') rs w) = Inr vs0
         \<and> written (path_join (path_join out ''hls'') ''master.m3u8'') evs
             = [master_header @ body]
         \<and> variant_entries (sorted_variants vs0) = Inr body
         \<and> (\<forall>v \<in> set (sorted_variants vs0).
               \<exists>p k. map_of quality_presets (v_resolution v) = Some p
                 \<and> bitrate p = str_int k @ ''k'' \<and> bandwidth v = k * 1000)
         \<and> (distinct (map fst rs) \<and> set (map fst rs) = {''1080p'', ''720p'', ''480p''}
              \<and> length vs0 = 3 \<longrightarrow>
                map v_resolution (sorted_variants vs0) = [''1080p'', ''720p'', ''480p'']
              \<and> map bandwidth (sorted_variants vs0) = [5000000, 2500000, 1000000]
              \<and> body = ''#EXT-X-STREAM-INF:BANDWIDTH=5000000,RESOLUTION=1920x1080\<newline>1080p.m3u8\<newline>\<newline>#EXT-X-STREAM-INF:BANDWIDTH=2500000,RESOLUTION=1280x720\<newline>720p.m3u8\<newline>\<newline>#EXT-X-STREAM-INF:BANDWIDTH=1000000,RESOLUTION=854x480\<newline>480p.m3u8\<newline>\<newline>'')"
proof -
  let ?m = "path_join (path_join out ''hls'') ''master.m3u8''"
  let ?three = "[\<lparr>v_resolution = ''1080p'', bandwidth = 5000000, playlist = ''1080p.m3u8''\<rparr>,
      \<lparr>v_resolution = ''720p'', bandwidth = 2500000, playlist = ''720p.m3u8''\<rparr>,
      \<lparr>v_resolution = ''480p'', bandwidth = 1000000, playlist = ''480p.m3u8''\<rparr>]"
  from generate_hls_playlist_known [OF assms, of env out w]
  obtain w' evs where g: "generate_hls_playlist env out rs w = (Inr ?m, w', evs)"
    by blast
  from g obtain vs0 body evs0 where
    h: "hls_variants env (path_join out ''hls'') rs w = (Inr vs0, w', evs0)"
    and b: "variant_entries (sorted_variants vs0) = Inr body"
    and ok: "\<forall>v \<in> set vs0. variant_ok v"
    and wr: "written ?m evs = [master_header @ body]"
    by (rule generate_hls_playlist_Inr)
  have f: "fst (hls_variants env (path_join out ''hls'') rs w) = Inr vs0"
    using h by simp
  have bw: "\<forall>v \<in> set (sorted_variants vs0).
               \<exists>p k. map_of quality_presets (v_resolution v) = Some p
                 \<and> bitrate p = str_int k @ ''k'' \<and> bandwidth v = k * 1000"
    using ok by (auto simp: sorted_variants_set variant_ok_def)
  have three: "map v_resolution (sorted_variants vs0) = [''1080p'', ''720p'', ''480p'']
              \<and> map bandwidth (sorted_variants vs0) = [5000000, 2500000, 1000000]
              \<and> body = ''#EXT-X-STREAM-INF:BANDWIDTH=5000000,RESOLUTION=1920x1080\<newline>1080p.m3u8\<newline>\<newline>#EXT-X-STREAM-INF:BANDWIDTH=2500000,RESOLUTION=1280x720\<newline>720p.m3u8\<newline>\<newline>#EXT-X-STREAM-INF:BANDWIDTH=1000000,RESOLUTION=854x480\<newline>480p.m3u8\<newline>\<newline>''"
    if d: "distinct (map fst rs)" and s: "set (map fst rs) = {''1080p'', ''720p'', ''480p''}"
      and n: "length vs0 = 3"
  proof -
    have sub: "set (map v_resolution vs0) \<subseteq> {''1080p'', ''720p'', ''480p''}"
      and dv: "distinct (map v_resolution vs0)"
      using hls_variants_Inr_labels [OF f] d s by auto
    have "card (set (map v_resolution vs0)) = 3"
      using distinct_card [OF dv] n by simp
    moreover have "card {''1080p'', ''720p'', ''480p''} = 3"
      by simp
    ultimately have "set (map v_resolution vs0) = {''1080p'', ''720p'', ''480p''}"
      using sub by (intro card_subset_eq) auto
    then have "sorted_variants vs0 = ?three"
      using three_variants_sorted [OF ok dv] by simp
    then show ?thesis
      using b three_variants_entries by simp
  qed
  show ?thesis
    using g f b wr bw three
    by (intro exI [of _ vs0] exI [of _ body] exI [of _ w'] exI [of _ evs]) blast
qed

lemma sample_variants_three:
  "hls_variants (sample_env (ZeroExit ''clip'') (\<lambda>c. False)) ''transcoded/v1/hls'' [(''1080p'', ''transcoded/v1/1080p.mp4''), (''720p'', ''transcoded/v1/720p.mp4''), (''480p'', ''transcoded/v1/480p.mp4'')] 0
   =
     (Inr [\<lparr>v_resolution = ''1080p'', bandwidth = 5000000,
               playlist = ''1080p.m3u8''\<rparr>,
            \<lparr>v_resolution = ''720p'', bandwidth = 2500000,
               playlist = ''720p.m3u8''\<rparr>,
            \<lparr>v_resolution = ''480p'', bandwidth = 1000000,
               playlist = ''480p.m3u8''\<rparr>],
       3, [Exec
            [''ffmpeg'', ''-i'', ''transcoded/v1/1080p.mp4'', ''-c'', ''copy'',
             ''-start_number'', ''0'', ''-hls_time'', ''6'', ''-hls_list_size'',
             ''0'', ''-f'', ''hls'', ''-hls_segment_filename'',
             ''transcoded/v1/hls/1080p_%03d.ts'', ''-y'',
             ''transcoded/v1/hls/1080p.m3u8''],
           Exec
            [''ffmpeg'', ''-i'', ''transcoded/v1/720p.mp4'', ''-c'', ''copy'',
             ''-start_number'', ''0'', ''-hls_time'', ''6'', ''-hls_list_size'',
             ''0'', ''-f'', ''hls'', ''-hls_segment_filename'',
             ''transcoded/v1/hls/720p_%03d.ts'', ''-y'',
             ''transcoded/v1/hls/720p.m3u8''],
           Exec
            [''ffmpeg'', ''-i'', ''transcoded/v1/480p.mp4'', ''-c'', ''copy'',
             ''-start_number'', ''0'', ''-hls_time'', ''6'', ''-hls_list_size'',
             ''0'', ''-f'', ''hls'', ''-hls_segment_filename'',
             ''transcoded/v1/hls/480p_%03d.ts'', ''-y'',
             ''transcoded/v1/hls/480p.m3u8'']])"
  by (simp add: run_eval str_eval)

lemma sample_playlist_three:
  "generate_hls_playlist (sample_env (ZeroExit ''clip'') (\<lambda>c. False)) ''transcoded/v1'' [(''1080p'', ''transcoded/v1/1080p.mp4''), (''720p'', ''transcoded/v1/720p.mp4''), (''480p'', ''transcoded/v1/480p.mp4'')] 0
   =
     (Inr ''transcoded/v1/hls/master.m3u8'', 3,
       [Exec
         [''ffmpeg'', ''-i'', ''transcoded/v1/1080p.mp4'', ''-c'', ''copy'',
          ''-start_number'', ''0'', ''-hls_time'', ''6'', ''-hls_list_size'',
          ''0'', ''-f'', ''hls'', ''-hls_segment_filename'',
          ''transcoded/v1/hls/1080p_%03d.ts'', ''-y'',
          ''transcoded/v1/hls/1080p.m3u8''],
        Exec
         [''ffmpeg'', ''-i'', ''transcoded/v1/720p.mp4'', ''-c'', ''copy'',
          ''-start_number'', ''0'', ''-hls_time'', ''6'', ''-hls_list_size'',
          ''0'', ''-f'', ''hls'', ''-hls_segment_filename'',
          ''transcoded/v1/hls/720p_%03d.ts'', ''-y'',
          ''transcoded/v1/hls/720p.m3u8''],
        Exec
         [''ffmpeg'', ''-i'', ''transcoded/v1/480p.mp4'', ''-c'', ''copy'',
          ''-start_number'', ''0'', ''-hls_time'', ''6'', ''-hls_list_size'',
          ''0'', ''-f'', ''hls'', ''-hls_segment_filename'',
          ''transcoded/v1/hls/480p_%03d.ts'', ''-y'',
          ''transcoded/v1/hls/480p.m3u8''],
        WriteFile ''transcoded/v1/hls/master.m3u8''
         ''#EXTM3U\<newline>#EXT-X-VERSION:3\<newline>\<newline>#EXT-X-STREAM-INF:BANDWIDTH=5000000,RESOLUTION=1920x1080\<newline>1080p.m3u8\<newline>\<newline>#EXT-X-STREAM-INF:BANDWIDTH=2500000,RESOLUTION=1280x720\<newline>720p.m3u8\<newline>\<newline>#EXT-X-STREAM-INF:BANDWIDTH=1000000,RESOLUTION=854x480\<newline>480p.m3u8\<newline>\<newline>'',
        Log INFO ''HLS playlist generated successfully''])"
  by (simp add: run_eval str_eval)

theorem variant_bandwidth_witness:
  "known ''1080p'' \<and> known ''720p'' \<and> known ''480p''
   \<and> distinct (map fst [(''1080p'', ''transcoded/v1/1080p.mp4''),
        (''720p'', ''transcoded/v1/720p.mp4''), (''480p'', ''transcoded/v1/480p.mp4'')])
   \<and> set (map fst [(''1080p'', ''transcoded/v1/1080p.mp4''),
        (''720p'', ''transcoded/v1/720p.mp4''), (''480p'', ''transcoded/v1/480p.mp4'')])
       = {''1080p'', ''720p'', ''480p''}
   \<and> (\<exists>vs0. fst (hls_variants (sample_env (ZeroExit ''clip'') (\<lambda>c. False))
           (path_join ''transcoded/v1'' ''hls'')
           [(''1080p'', ''transcoded/v1/1080p.mp4''), (''720p'', ''transcoded/v1/720p.mp4''),
            (''480p'', ''transcoded/v1/480p.mp4'')] 0) = Inr vs0
        \<and> length vs0 = 3
        \<and> map v_resolution (sorted_variants vs0) = [''1080p'', ''720p'', ''480p'']
        \<and> map bandwidth (sorted_variants vs0) = [5000000, 2500000, 1000000])
   \<and> written ''transcoded/v1/hls/master.m3u8''
        (snd (snd (generate_hls_playlist (sample_env (ZeroExit ''clip'') (\<lambda>c. False))
           ''transcoded/v1''
           [(''1080p'', ''transcoded/v1/1080p.mp4''), (''720p'', ''transcoded/v1/720p.mp4''),
            (''480p'', ''transcoded/v1/480p.mp4'')] 0)))
       = [''#EXTM3U\<newline>#EXT-X-VERSION:3\<newline>\<newline>#EXT-X-STREAM-INF:BANDWIDTH=5000000,RESOLUTION=1920x1080\<newline>1080p.m3u8\<newline>\<newline>#EXT-X-STREAM-INF:BANDWIDTH=2500000,RESOLUTION=1280x720\<newline>720p.m3u8\<newline>\<newline>#EXT-X-STREAM-INF:BANDWIDTH=1000000,RESOLUTION=854x480\<newline>480p.m3u8\<newline>\<newline>'']"
proof -
  define env :: "nat env" where "env = sample_env (ZeroExit ''clip'') (\<lambda>c. False)"
  define rs where "rs = [(''1080p'', ''transcoded/v1/1080p.mp4''),
    (''720p'', ''transcoded/v1/720p.mp4''), (''480p'', ''transcoded/v1/480p.mp4'')]"
  have kn: "\<forall>l \<in> set (map fst rs). known l"
    by (simp add: rs_def known_def quality_presets_def)
  have d: "distinct (map fst rs)" and s: "set (map fst rs) = {''1080p'', ''720p'', ''480p''}"
    by (simp_all add: rs_def)
  have hd: "path_join ''transcoded/v1'' ''hls'' = ''transcoded/v1/hls''"
    by (simp add: path_join_def)
  define vs where "vs =
     [\<lparr>v_resolution = ''1080p'', bandwidth = 5000000, playlist = ''1080p.m3u8''\<rparr>,
      \<lparr>v_resolution = ''720p'', bandwidth = 2500000, playlist = ''720p.m3u8''\<rparr>,
      \<lparr>v_resolution = ''480p'', bandwidth = 1000000, playlist = ''480p.m3u8''\<rparr>]"
  have vs: "fst (hls_variants env (path_join ''transcoded/v1'' ''hls'') rs 0) = Inr vs"
    unfolding hd env_def rs_def vs_def by (simp only: sample_variants_three fst_conv)
  have n: "length vs = 3"
    by (simp add: vs_def)
  have wr: "written ''transcoded/v1/hls/master.m3u8''
        (snd (snd (generate_hls_playlist env ''transcoded/v1'' rs 0)))
       = [''#EXTM3U\<newline>#EXT-X-VERSION:3\<newline>\<newline>#EXT-X-STREAM-INF:BANDWIDTH=5000000,RESOLUTION=1920x1080\<newline>1080p.m3u8\<newline>\<newline>#EXT-X-STREAM-INF:BANDWIDTH=2500000,RESOLUTION=1280x720\<newline>720p.m3u8\<newline>\<newline>#EXT-X-STREAM-INF:BANDWIDTH=1000000,RESOLUTION=854x480\<newline>480p.m3u8\<newline>\<newline>'']"
    unfolding env_def rs_def by (simp add: sample_playlist_three)
  from variant_bandwidth [OF kn, of env "''transcoded/v1''" 0]
  obtain vs0 where v0: "fst (hls_variants env (path_join ''transcoded/v1'' ''hls'') rs 0) = Inr vs0"
    and imp: "distinct (map fst rs) \<and> set (map fst rs) = {''1080p'', ''720p'', ''480p''}
              \<and> length vs0 = 3 \<longrightarrow>
                map v_resolution (sorted_variants vs0) = [''1080p'', ''720p'', ''480p'']
              \<and> map bandwidth (sorted_variants vs0) = [5000000, 2500000, 1000000]"
    by (elim exE conjE) simp
  have "vs0 = vs" using v0 vs by simp
  then have "map v_resolution (sorted_variants vs) = [''1080p'', ''720p'', ''480p'']"
    "map bandwidth (sorted_variants vs) = [5000000, 2500000, 1000000]"
    using imp d s n by simp_all
  with vs n have "\<exists>vs0. fst (hls_variants env (path_join ''transcoded/v1'' ''hls'') rs 0) = Inr vs0
        \<and> length vs0 = 3
        \<and> map v_resolution (sorted_variants vs0) = [''1080p'', ''720p'', ''480p'']
        \<and> map bandwidth (sorted_variants vs0) = [5000000, 2500000, 1000000]"
    by (intro exI [of _ vs] conjI)
  moreover have "known ''1080p''" "known ''720p''" "known ''480p''"
    by (simp_all add: known_def quality_presets_def)
  ultimately show ?thesis
    using d s wr unfolding env_def rs_def by (intro conjI)
qed

text \<open>
  C3 as stated fails: there is no \<open>NoVariants\<close> error. With no renditions at all the
  playlist stage returns the path of the master playlist and writes a playlist that holds
  the two header lines only.
\<close>

theorem no_variants_counterexample:
  "generate_hls_playlist (sample_env (ZeroExit ''clip'') (\<lambda>c. False)) ''transcoded/v1'' [] 0
   = (Inr ''transcoded/v1/hls/master.m3u8'', 0,
      [WriteFile ''transcoded/v1/hls/master.m3u8''
         ''#EXTM3U\<newline>#EXT-X-VERSION:3\<newline>\<newline>'',
       Log INFO ''HLS playlist generated successfully''])"
  by (simp add: generate_hls_playlist_def sorted_variants_def master_header_def path_join_def Let_def)

text \<open>
  C3, as the code has it: when no variant is segmented, in particular when there is no
  rendition, the playlist stage still returns the path of the master playlist and the
  playlist written holds the header only; a run without renditions returns with that
  path, and with the metadata, thumbnails and preview that its other stages produced.
\<close>

theorem empty_master_playlist:
  "(fst (hls_variants env (path_join out ''hls'') rs w) = Inr [] \<longrightarrow>
      (\<exists>w1 evs1. generate_hls_playlist env out rs w
                    = (Inr (path_join (path_join out ''hls'') ''master.m3u8''), w1, evs1)
         \<and> written (path_join (path_join out ''hls'') ''master.m3u8'') evs1 = [master_header]))
   \<and> (transcode_video env f vid req w = (Inr r, w', evs) \<and> resolutions r = [] \<longrightarrow>
        hls_playlist r
          = path_join (path_join (path_join (output_dir env) vid) ''hls'') ''master.m3u8''
      \<and> written (hls_playlist r) evs = [master_header]
      \<and> fst (get_video_metadata env (path_join (input_dir env) f) w) = Inr (metadata r)
      \<and> (\<exists>w3. fst (generate_thumbnails env (path_join (input_dir env) f)
                      (path_join (output_dir env) vid) 10 w3) = Inr (thumbnails r))
      \<and> (\<exists>w4. fst (generate_preview env (path_join (input_dir env) f)
                      (path_join (output_dir env) vid) 30 w4) = preview r))"
proof (intro conjI impI)
  let ?m = "path_join (path_join out ''hls'') ''master.m3u8''"
  assume a: "fst (hls_variants env (path_join out ''hls'') rs w) = Inr []"
  obtain w1 evs0 where h: "hls_variants env (path_join out ''hls'') rs w = (Inr [], w1, evs0)"
    using a by (cases "hls_variants env (path_join out ''hls'') rs w") simp
  have g: "generate_hls_playlist env out rs w
             = (Inr ?m, w1, evs0 @ [WriteFile ?m master_header,
                                    Log INFO ''HLS playlist generated successfully''])"
    using h by (simp add: generate_hls_playlist_def sorted_variants_def Let_def)
  have "written ?m evs0 = []"
    using hls_variants_events [of _ env "path_join out ''hls''" rs w ?m] h by simp
  then have "written ?m (evs0 @ [WriteFile ?m master_header,
                                 Log INFO ''HLS playlist generated successfully''])
               = [master_header]"
    by (simp add: written_append)
  with g show "\<exists>w1 evs1. generate_hls_playlist env out rs w = (Inr ?m, w1, evs1)
         \<and> written ?m evs1 = [master_header]"
    by blast
next
  assume a: "transcode_video env f vid req w = (Inr r, w', evs) \<and> resolutions r = []"
  then have run: "transcode_video env f vid req w = (Inr r, w', evs)" and e: "resolutions r = []"
    by simp_all
  show "hls_playlist r
          = path_join (path_join (path_join (output_dir env) vid) ''hls'') ''master.m3u8''"
    using transcode_video_run(7) [OF run] .
  obtain vs body where vs: "variant_entries vs = Inr body"
    "written (hls_playlist r) evs = [master_header @ body]"
    "set (map v_resolution vs) \<subseteq> set (map fst (resolutions r))"
    using transcode_video_run(8) [OF run] by blast
  have "vs = []" using vs(3) e by simp
  then have "body = []" using vs(1) by simp
  then show "written (hls_playlist r) evs = [master_header]"
    using vs(2) by simp
  from run obtain md w1 evs1 ts w3 w4 evs4 pv evs5 where
    m: "get_video_metadata env (path_join (input_dir env) f) w = (Inr md, w1, evs1)" and
    t: "generate_thumbnails env (path_join (input_dir env) f) (path_join (output_dir env) vid)
          10 w3 = (Inr ts, w4, evs4)" and
    p: "generate_preview env (path_join (input_dir env) f) (path_join (output_dir env) vid)
          30 w4 = (pv, w', evs5)" and
    r: "metadata r = md" "thumbnails r = ts" "preview r = pv"
    by (rule transcode_video_Inr) simp
  show "fst (get_video_metadata env (path_join (input_dir env) f) w) = Inr (metadata r)"
    using m r by simp
  show "\<exists>w3. fst (generate_thumbnails env (path_join (input_dir env) f)
                      (path_join (output_dir env) vid) 10 w3) = Inr (thumbnails r)"
    using t r by (intro exI [of _ w3]) simp
  show "\<exists>w4. fst (generate_preview env (path_join (input_dir env) f)
                      (path_join (output_dir env) vid) 30 w4) = preview r"
    using p r by (intro exI [of _ w4]) simp
qed

lemma sample_run_no_labels:
  "transcode_video (sample_env (ZeroExit ''clip'') (\<lambda>c. False)) ''a.mp4'' ''v1'' (Some []) 0
   =
     (Inr \<lparr>video_id = ''v1'',
              metadata =
                [(''duration'', PFloat 30), (''size'', PInt 1048576),
                 (''bitrate'', PInt 279620), (''format'', PStr ''mov,mp4''),
                 (''width'', PInt 1920), (''height'', PInt 1080),
                 (''codec'', PStr ''h264''), (''fps'', PFloat 30),
                 (''audio_codec'', PStr ''aac''), (''audio_channels'', PInt 2)],
              resolutions = [],
              thumbnails =
                [''transcoded/v1/thumbnails/thumb_01.jpg'',
                 ''transcoded/v1/thumbnails/thumb_02.jpg'',
                 ''transcoded/v1/thumbnails/thumb_03.jpg'',
                 ''transcoded/v1/thumbnails/thumb_04.jpg'',
                 ''transcoded/v1/thumbnails/thumb_05.jpg'',
                 ''transcoded/v1/thumbnails/thumb_06.jpg'',
                 ''transcoded/v1/thumbnails/thumb_07.jpg'',
                 ''transcoded/v1/thumbnails/thumb_08.jpg'',
                 ''transcoded/v1/thumbnails/thumb_09.jpg'',
                 ''transcoded/v1/thumbnails/thumb_10.jpg''],
              preview = Some ''transcoded/v1/preview.mp4'',
              hls_playlist = ''transcoded/v1/hls/master.m3u8''\<rparr>,
       13,
       [Log INFO ''Starting transcoding for video v1'',
        Exec
         [''ffprobe'', ''-v'', ''quiet'', ''-print_format'', ''json'',
          ''-show_format'', ''-show_streams'', ''uploads/a.mp4''],
        WriteFile ''transcoded/v1/hls/master.m3u8''
         ''#EXTM3U\<newline>#EXT-X-VERSION:3\<newline>\<newline>'',
        Log INFO ''HLS playlist generated successfully'',
        Exec
         [''ffprobe'', ''-v'', ''quiet'', ''-print_format'', ''json'',
          ''-show_format'', ''-show_streams'', ''uploads/a.mp4''],
        Exec
         [''ffmpeg'', ''-ss'', ''2.727'', ''-i'', ''uploads/a.mp4'',
          ''-vframes'', ''1'', ''-vf'', ''scale=320:-1'', ''-y'',
          ''transcoded/v1/thumbnails/thumb_01.jpg''],
        Exec
         [''ffmpeg'', ''-ss'', ''5.454'', ''-i'', ''uploads/a.mp4'',
          ''-vframes'', ''1'', ''-vf'', ''scale=320:-1'', ''-y'',
          ''transcoded/v1/thumbnails/thumb_02.jpg''],
        Exec
         [''ffmpeg'', ''-ss'', ''8.181'', ''-i'', ''uploads/a.mp4'',
          ''-vframes'', ''1'', ''-vf'', ''scale=320:-1'', ''-y'',
          ''transcoded/v1/thumbnails/thumb_03.jpg''],
        Exec
         [''ffmpeg'', ''-ss'', ''10.909'', ''-i'', ''uploads/a.mp4'',
          ''-vframes'', ''1'', ''-vf'', ''scale=320:-1'', ''-y'',
          ''transcoded/v1/thumbnails/thumb_04.jpg''],
        Exec
         [''ffmpeg'', ''-ss'', ''13.636'', ''-i'', ''uploads/a.mp4'',
          ''-vframes'', ''1'', ''-vf'', ''scale=320:-1'', ''-y'',
          ''transcoded/v1/thumbnails/thumb_05.jpg''],
        Exec
         [''ffmpeg'', ''-ss'', ''16.363'', ''-i'', ''uploads/a.mp4'',
          ''-vframes'', ''1'', ''-vf'', ''scale=320:-1'', ''-y'',
          ''transcoded/v1/thumbnails/thumb_06.jpg''],
        Exec
         [''ffmpeg'', ''-ss'', ''19.090'', ''-i'', ''uploads/a.mp4'',
          ''-vframes'', ''1'', ''-vf'', ''scale=320:-1'', ''-y'',
          ''transcoded/v1/thumbnails/thumb_07.jpg''],
        Exec
         [''ffmpeg'', ''-ss'', ''21.818'', ''-i'', ''uploads/a.mp4'',
          ''-vframes'', ''1'', ''-vf'', ''scale=320:-1'', ''-y'',
          ''transcoded/v1/thumbnails/thumb_08.jpg''],
        Exec
         [''ffmpeg'', ''-ss'', ''24.545'', ''-i'', ''uploads/a.mp4'',
          ''-vframes'', ''1'', ''-vf'', ''scale=320:-1'', ''-y'',
          ''transcoded/v1/thumbnails/thumb_09.jpg''],
        Exec
         [''ffmpeg'', ''-ss'', ''27.272'', ''-i'', ''uploads/a.mp4'',
          ''-vframes'', ''1'', ''-vf'', ''scale=320:-1'', ''-y'',
          ''transcoded/v1/thumbnails/thumb_10.jpg''],
        Log INFO ''Generated 10 thumbnails'',
        Exec
         [''ffmpeg'', ''-i'', ''uploads/a.mp4'', ''-t'', ''30'', ''-vf'',
          ''scale=640:-1'', ''-c:v'', ''libx264'', ''-preset'', ''fast'',
          ''-b:v'', ''500k'', ''-c:a'', ''aac'', ''-b:a'', ''96k'',
          ''-movflags'', ''+faststart'', ''-y'', ''transcoded/v1/preview.mp4''],
        Log INFO ''Preview clip generated successfully'',
        Log INFO ''Transcoding completed for video v1''])"
  by (simp add: run_eval str_eval upto_1_10 floor_numeral_div)

theorem empty_master_playlist_witness:
  "fst (hls_variants (sample_env (ZeroExit ''clip'') (\<lambda>c. False))
          (path_join ''transcoded/v1'' ''hls'') [] 0) = Inr []
   \<and> (\<exists>w1 evs1. generate_hls_playlist (sample_env (ZeroExit ''clip'') (\<lambda>c. False))
          ''transcoded/v1'' [] 0
          = (Inr (path_join (path_join ''transcoded/v1'' ''hls'') ''master.m3u8''), w1, evs1)
        \<and> written (path_join (path_join ''transcoded/v1'' ''hls'') ''master.m3u8'') evs1
            = [master_header])
   \<and> (\<exists>r w' evs. transcode_video (sample_env (ZeroExit ''clip'') (\<lambda>c. False)) ''a.mp4'' ''v1''
          (Some []) 0 = (Inr r, w', evs)
        \<and> resolutions r = []
        \<and> written (hls_playlist r) evs = [master_header]
        \<and> length (thumbnails r) = 10
        \<and> preview r = Some ''transcoded/v1/preview.mp4'')"
proof -
  define env :: "nat env" where "env = sample_env (ZeroExit ''clip'') (\<lambda>c. False)"
  obtain r w' evs where run: "transcode_video env ''a.mp4'' ''v1'' (Some []) 0 = (Inr r, w', evs)"
    and e: "resolutions r = []" and t: "length (thumbnails r) = 10"
    and p: "preview r = Some ''transcoded/v1/preview.mp4''"
    unfolding env_def by (simp add: sample_run_no_labels)
  have h: "fst (hls_variants env (path_join ''transcoded/v1'' ''hls'') [] 0) = Inr []"
    by simp
  note c = empty_master_playlist [where env = env and out = "''transcoded/v1''" and rs = "[]"
      and w = 0 and f = "''a.mp4''" and vid = "''v1''" and req = "Some []" and r = r
      and w' = w' and evs = evs]
  from c h have 1: "\<exists>w1 evs1. generate_hls_playlist env ''transcoded/v1'' [] 0
          = (Inr (path_join (path_join ''transcoded/v1'' ''hls'') ''master.m3u8''), w1, evs1)
        \<and> written (path_join (path_join ''transcoded/v1'' ''hls'') ''master.m3u8'') evs1
            = [master_header]"
    by blast
  from c run e have 2: "written (hls_playlist r) evs = [master_header]"
    by blast
  have "\<exists>r w' evs. transcode_video env ''a.mp4'' ''v1'' (Some []) 0 = (Inr r, w', evs)
        \<and> resolutions r = []
        \<and> written (hls_playlist r) evs = [master_header]
        \<and> length (thumbnails r) = 10
        \<and> preview r = Some ''transcoded/v1/preview.mp4''"
    using run e 2 t p by (intro exI [of _ r] exI [of _ w'] exI [of _ evs] conjI)
  with h 1 show ?thesis
    unfolding env_def by (intro conjI)
qed


lemma sample_run_probe_junk:
  "transcode_video (sample_env (ZeroExit ''junk'') (\<lambda>c. False)) ''a.mp4'' ''v1'' (Some [''720p'']) 0
   =
     (Inl JSONDecodeError, 1,
       [Log INFO ''Starting transcoding for video v1'',
        Exec
         [''ffprobe'', ''-v'', ''quiet'', ''-print_format'', ''json'',
          ''-show_format'', ''-show_streams'', ''uploads/a.mp4'']])"
  by (simp add: run_eval)




end
